theory Spec2Isabelle
  imports Main "HOL-Library.Word"
begin

unbundle bit_operations_syntax

section \<open>The entropy complex driver (sw/device/lib/crypto/drivers/entropy.c)\<close>

text \<open>
  The driver talks to four hardware blocks (entropy_src, csrng, edn0, edn1) through
  memory-mapped 32-bit registers. The model keeps every register access in a trace, asks a
  device function for the value of every read, and bounds every polling loop by a number of
  polls, so that a loop that the hardware never releases is the outcome \<open>None\<close>.
\<close>

subsection \<open>Registers, the device and the trace\<close>

type_synonym uint32_t = "32 word"

datatype event = Read32 uint32_t uint32_t | Write32 uint32_t uint32_t

text \<open>
  \<open>dev s h a\<close> is the value the hardware gives to a read of address \<open>a\<close> after the
  accesses \<open>h\<close>; \<open>trace s\<close> is the list of accesses so far, oldest first.
\<close>

record hw =
  dev :: "event list \<Rightarrow> uint32_t \<Rightarrow> uint32_t"
  trace :: "event list"

text \<open>\<open>status_t\<close>: the driver uses \<open>OK_STATUS()\<close> and \<open>INTERNAL()\<close> only.\<close>

datatype status_t = OK_STATUS | INTERNAL

text \<open>
  A driver routine takes the hardware state and gives the state after it, with its result:
  \<open>Some r\<close> when it returns \<open>r\<close>, \<open>None\<close> when it is still in a polling loop
  after the allowed number of polls.
\<close>

type_synonym 'a mmio = "hw \<Rightarrow> 'a option \<times> hw"

definition ret :: "'a \<Rightarrow> 'a mmio" where
  "ret x s = (Some x, s)"

definition seq :: "'a mmio \<Rightarrow> ('a \<Rightarrow> 'b mmio) \<Rightarrow> 'b mmio" where
  "seq m f s = (case m s of (None, s') \<Rightarrow> (None, s') | (Some x, s') \<Rightarrow> f x s')"

text \<open>The macro \<open>TRY(expr)\<close>: leave the calling function with the status of \<open>expr\<close>
  unless it is ok.\<close>

definition TRY :: "status_t mmio \<Rightarrow> status_t mmio \<Rightarrow> status_t mmio" where
  "TRY m k = seq m (\<lambda>r. if r = OK_STATUS then k else ret r)"

text \<open>
  Modelled from the spec: \<open>abs_mmio_read32\<close> and \<open>abs_mmio_write32\<close>
  (sw/device/lib/base/abs_mmio.h) are not among the sources; they are the side-effecting,
  uncached read and write of one register.
\<close>

definition abs_mmio_read32 :: "uint32_t \<Rightarrow> uint32_t mmio" where
  "abs_mmio_read32 addr s =
     (let v = dev s (trace s) addr in (Some v, s\<lparr>trace := trace s @ [Read32 addr v]\<rparr>))"

definition abs_mmio_write32 :: "uint32_t \<Rightarrow> uint32_t \<Rightarrow> unit mmio" where
  "abs_mmio_write32 addr v s = (Some (), s\<lparr>trace := trace s @ [Write32 addr v]\<rparr>)"

subsection \<open>Bit fields\<close>

record bitfield_field32_t =
  mask_field :: uint32_t
  index_field :: nat

text \<open>
  Modelled from the spec: the bit field helpers (sw/device/lib/base/bitfield.h) are not
  among the sources; a field is read or set given its bit index and its mask, and a single
  bit is the field of mask 1 at that index.
\<close>

definition bitfield_field32_read :: "uint32_t \<Rightarrow> bitfield_field32_t \<Rightarrow> uint32_t" where
  "bitfield_field32_read bitfield field =
     drop_bit (index_field field) bitfield AND mask_field field"

definition bitfield_field32_write ::
  "uint32_t \<Rightarrow> bitfield_field32_t \<Rightarrow> uint32_t \<Rightarrow> uint32_t" where
  "bitfield_field32_write bitfield field v =
     (bitfield AND NOT (push_bit (index_field field) (mask_field field)))
       OR push_bit (index_field field) (v AND mask_field field)"

definition bitfield_bit32_to_field32 :: "nat \<Rightarrow> bitfield_field32_t" where
  "bitfield_bit32_to_field32 bit_index = \<lparr>mask_field = 1, index_field = bit_index\<rparr>"

definition bitfield_bit32_read :: "uint32_t \<Rightarrow> nat \<Rightarrow> bool" where
  "bitfield_bit32_read bitfield bit_index =
     (bitfield_field32_read bitfield (bitfield_bit32_to_field32 bit_index) = 1)"

definition bitfield_bit32_write :: "uint32_t \<Rightarrow> nat \<Rightarrow> bool \<Rightarrow> uint32_t" where
  "bitfield_bit32_write bitfield bit_index v =
     bitfield_field32_write bitfield (bitfield_bit32_to_field32 bit_index)
       (if v then 1 else 0)"

text \<open>
  Modelled from the spec: \<open>launder32\<close> (sw/device/lib/base/hardened.h) is not among the
  sources; it hides a value from the compiler and gives it back unchanged.
  \<open>misalignment32_of\<close> (sw/device/lib/base/memory.h) is not among the sources either;
  it is the distance of an address from the 4-byte boundary below it.
\<close>

definition launder32 :: "uint32_t \<Rightarrow> uint32_t" where
  "launder32 v = v"

definition misalignment32_of :: "uint32_t \<Rightarrow> uint32_t" where
  "misalignment32_of addr = addr AND 3"

subsection \<open>The generated constants\<close>

text \<open>
  The register offsets, bit indices, fields and reset values come from generated headers
  (csrng_regs.h, edn_regs.h, entropy_src_regs.h, top_earlgrey.h) and the boolean encodings
  from multibits.h and hardened.h; none of them is among the sources. The driver is
  modelled for any choice of them, gathered in one record.
\<close>

record layout =
  kBaseCsrng :: uint32_t
  kBaseEntropySrc :: uint32_t
  kBaseEdn0 :: uint32_t
  kBaseEdn1 :: uint32_t
  kMultiBitBool4True :: uint32_t
  kMultiBitBool4False :: uint32_t
  kHardenedBoolTrue :: uint32_t
  kHardenedBoolFalse :: uint32_t
  CSRNG_INTR_STATE_REG_OFFSET :: uint32_t
  CSRNG_INTR_STATE_CS_CMD_REQ_DONE_BIT :: nat
  CSRNG_CTRL_REG_OFFSET :: uint32_t
  CSRNG_CTRL_REG_RESVAL :: uint32_t
  CSRNG_CTRL_ENABLE_FIELD :: bitfield_field32_t
  CSRNG_CTRL_SW_APP_ENABLE_FIELD :: bitfield_field32_t
  CSRNG_CTRL_READ_INT_STATE_FIELD :: bitfield_field32_t
  CSRNG_CMD_REQ_REG_OFFSET :: uint32_t
  CSRNG_SW_CMD_STS_REG_OFFSET :: uint32_t
  CSRNG_SW_CMD_STS_CMD_RDY_BIT :: nat
  CSRNG_SW_CMD_STS_CMD_STS_BIT :: nat
  CSRNG_GENBITS_VLD_REG_OFFSET :: uint32_t
  CSRNG_GENBITS_VLD_GENBITS_VLD_BIT :: nat
  CSRNG_GENBITS_REG_OFFSET :: uint32_t
  EDN_CTRL_REG_OFFSET :: uint32_t
  EDN_CTRL_REG_RESVAL :: uint32_t
  EDN_CTRL_EDN_ENABLE_FIELD :: bitfield_field32_t
  EDN_CTRL_AUTO_REQ_MODE_FIELD :: bitfield_field32_t
  EDN_CTRL_CMD_FIFO_RST_FIELD :: bitfield_field32_t
  EDN_SW_CMD_REQ_REG_OFFSET :: uint32_t
  EDN_SW_CMD_STS_REG_OFFSET :: uint32_t
  EDN_SW_CMD_STS_CMD_RDY_BIT :: nat
  EDN_SW_CMD_STS_CMD_STS_BIT :: nat
  EDN_RESEED_CMD_REG_OFFSET :: uint32_t
  EDN_GENERATE_CMD_REG_OFFSET :: uint32_t
  EDN_MAX_NUM_REQS_BETWEEN_RESEEDS_REG_OFFSET :: uint32_t
  ENTROPY_SRC_MODULE_ENABLE_REG_OFFSET :: uint32_t
  ENTROPY_SRC_MODULE_ENABLE_REG_RESVAL :: uint32_t
  ENTROPY_SRC_CONF_REG_OFFSET :: uint32_t
  ENTROPY_SRC_CONF_REG_RESVAL :: uint32_t
  ENTROPY_SRC_CONF_FIPS_ENABLE_FIELD :: bitfield_field32_t
  ENTROPY_SRC_CONF_ENTROPY_DATA_REG_ENABLE_FIELD :: bitfield_field32_t
  ENTROPY_SRC_CONF_THRESHOLD_SCOPE_FIELD :: bitfield_field32_t
  ENTROPY_SRC_CONF_RNG_BIT_ENABLE_FIELD :: bitfield_field32_t
  ENTROPY_SRC_CONF_RNG_BIT_SEL_FIELD :: bitfield_field32_t
  ENTROPY_SRC_ENTROPY_CONTROL_REG_OFFSET :: uint32_t
  ENTROPY_SRC_ENTROPY_CONTROL_REG_RESVAL :: uint32_t
  ENTROPY_SRC_ENTROPY_CONTROL_ES_ROUTE_FIELD :: bitfield_field32_t
  ENTROPY_SRC_ENTROPY_CONTROL_ES_TYPE_FIELD :: bitfield_field32_t
  ENTROPY_SRC_HEALTH_TEST_WINDOWS_REG_OFFSET :: uint32_t
  ENTROPY_SRC_HEALTH_TEST_WINDOWS_REG_RESVAL :: uint32_t
  ENTROPY_SRC_HEALTH_TEST_WINDOWS_FIPS_WINDOW_FIELD :: bitfield_field32_t
  ENTROPY_SRC_ALERT_THRESHOLD_REG_OFFSET :: uint32_t
  ENTROPY_SRC_ALERT_THRESHOLD_REG_RESVAL :: uint32_t
  ENTROPY_SRC_ALERT_THRESHOLD_ALERT_THRESHOLD_FIELD :: bitfield_field32_t
  ENTROPY_SRC_ALERT_THRESHOLD_ALERT_THRESHOLD_INV_FIELD :: bitfield_field32_t

text \<open>CSRNG genbits buffer size in \<open>uint32_t\<close> words.\<close>

definition kEntropyCsrngBitsBufferNumWords :: uint32_t where
  "kEntropyCsrngBitsBufferNumWords = 4"

subsection \<open>Commands and configurations\<close>

text \<open>Supported CSRNG application commands, with the values the enumeration gives them.\<close>

datatype entropy_csrng_op_t =
  kEntropyDrbgOpInstantiate
  | kEntropyDrbgOpReseed
  | kEntropyDrbgOpGenerate
  | kEntropyDrbgOpUpdate
  | kEntropyDrbgOpUnisntantiate

fun entropy_csrng_op_value :: "entropy_csrng_op_t \<Rightarrow> uint32_t" where
  "entropy_csrng_op_value kEntropyDrbgOpInstantiate = 1"
| "entropy_csrng_op_value kEntropyDrbgOpReseed = 2"
| "entropy_csrng_op_value kEntropyDrbgOpGenerate = 3"
| "entropy_csrng_op_value kEntropyDrbgOpUpdate = 4"
| "entropy_csrng_op_value kEntropyDrbgOpUnisntantiate = 5"

text \<open>
  Modelled from the spec: \<open>entropy_seed_material_t\<close> is declared in entropy.h, which is
  not among the sources; it is a caller-owned buffer of words plus a length. \<open>len\<close> is its
  word count, \<open>data_addr\<close> the address of its array \<open>data\<close> (what the pointer check looks
  at) and \<open>data i\<close> the word that a read of \<open>data[i]\<close> gives.
\<close>

record entropy_seed_material_t =
  len :: uint32_t
  data_addr :: uint32_t
  data :: "nat \<Rightarrow> uint32_t"

text \<open>
  CSRNG application interface command header parameters. \<open>seed_material\<close> is a pointer,
  \<open>None\<close> when it is \<open>NULL\<close>. A \<open>hardened_bool_t\<close> is a 32-bit value; a field that an
  initializer leaves out is 0.
\<close>

record entropy_csrng_cmd_t =
  id_cmd :: entropy_csrng_op_t
  disable_trng_input :: uint32_t
  seed_material :: "entropy_seed_material_t option"
  generate_len :: uint32_t

datatype entropy_complex_config_id_t =
  kEntropyComplexConfigIdContinuous
  | kEntropyComplexConfigIdNumEntries

fun entropy_complex_config_id_value :: "entropy_complex_config_id_t \<Rightarrow> uint32_t" where
  "entropy_complex_config_id_value kEntropyComplexConfigIdContinuous = 0"
| "entropy_complex_config_id_value kEntropyComplexConfigIdNumEntries = 1"

record edn_config_t =
  base_address :: uint32_t
  reseed_interval :: uint32_t
  instantiate :: entropy_csrng_cmd_t
  generate :: entropy_csrng_cmd_t
  reseed :: entropy_csrng_cmd_t

record entropy_complex_config_t =
  id_config :: entropy_complex_config_id_t
  fips_enable :: uint32_t
  route_to_firmware :: uint32_t
  bypass_conditioner :: uint32_t
  single_bit_mode :: uint32_t
  fips_test_window_size :: "16 word"
  alert_threshold :: "16 word"
  edn0 :: edn_config_t
  edn1 :: edn_config_t

text \<open>
  The entropy complex configuration table, an array of
  \<open>kEntropyComplexConfigIdNumEntries\<close> = 1 entries. The initializer names no \<open>id\<close>, so
  the entry's \<open>id\<close> is 0, the value of \<open>kEntropyComplexConfigIdContinuous\<close>; the
  generate command of edn1 names no \<open>disable_trng_input\<close>, which is 0 as well.
\<close>

definition kEntropyComplexConfigs :: "layout \<Rightarrow> entropy_complex_config_t list" where
  "kEntropyComplexConfigs L =
    [\<lparr>id_config = kEntropyComplexConfigIdContinuous,
      fips_enable = kMultiBitBool4True L,
      route_to_firmware = kMultiBitBool4False L,
      bypass_conditioner = kMultiBitBool4False L,
      single_bit_mode = kMultiBitBool4False L,
      fips_test_window_size = 0x200,
      alert_threshold = 2,
      edn0 =
        \<lparr>base_address = kBaseEdn0 L,
         reseed_interval = 32,
         instantiate =
           \<lparr>id_cmd = kEntropyDrbgOpInstantiate,
            disable_trng_input = kHardenedBoolFalse L,
            seed_material = None,
            generate_len = 0\<rparr>,
         generate =
           \<lparr>id_cmd = kEntropyDrbgOpGenerate,
            disable_trng_input = kHardenedBoolFalse L,
            seed_material = None,
            generate_len = 8\<rparr>,
         reseed =
           \<lparr>id_cmd = kEntropyDrbgOpReseed,
            disable_trng_input = kHardenedBoolFalse L,
            seed_material = None,
            generate_len = 0\<rparr>\<rparr>,
      edn1 =
        \<lparr>base_address = kBaseEdn1 L,
         reseed_interval = 4,
         instantiate =
           \<lparr>id_cmd = kEntropyDrbgOpInstantiate,
            disable_trng_input = kHardenedBoolFalse L,
            seed_material = None,
            generate_len = 0\<rparr>,
         generate =
           \<lparr>id_cmd = kEntropyDrbgOpGenerate,
            disable_trng_input = 0,
            seed_material = None,
            generate_len = 1\<rparr>,
         reseed =
           \<lparr>id_cmd = kEntropyDrbgOpReseed,
            disable_trng_input = kHardenedBoolFalse L,
            seed_material = None,
            generate_len = 0\<rparr>\<rparr>\<rparr>]"

subsection \<open>Polling loops\<close>

text \<open>
  The loops \<open>do { reg = abs_mmio_read32(addr); } while (!bitfield_bit32_read(reg, b));\<close>
  of the source: read the register until the bit is set, and give the last value read. The
  body runs at least once. \<open>n\<close> is the number of polls allowed; the source allows any
  number.
\<close>

primrec poll_bit32 :: "nat \<Rightarrow> uint32_t \<Rightarrow> nat \<Rightarrow> uint32_t mmio" where
  "poll_bit32 0 addr b = (\<lambda>s. (None, s))"
| "poll_bit32 (Suc n) addr b =
     seq (abs_mmio_read32 addr)
       (\<lambda>reg. if bitfield_bit32_read reg b then ret reg else poll_bit32 n addr b)"

subsection \<open>Command submission\<close>

text \<open>The application command header fields, mapped by hand in the source.\<close>

definition kAppCmdFieldFlag0 :: bitfield_field32_t where
  "kAppCmdFieldFlag0 = \<lparr>mask_field = 0xf, index_field = 8\<rparr>"

definition kAppCmdFieldCmdId :: bitfield_field32_t where
  "kAppCmdFieldCmdId = \<lparr>mask_field = 0xf, index_field = 0\<rparr>"

definition kAppCmdFieldCmdLen :: bitfield_field32_t where
  "kAppCmdFieldCmdLen = \<lparr>mask_field = 0xf, index_field = 4\<rparr>"

definition kAppCmdFieldGlen :: bitfield_field32_t where
  "kAppCmdFieldGlen = \<lparr>mask_field = 0x7ffff, index_field = 12\<rparr>"

text \<open>\<open>cmd_len\<close> of \<open>csrng_send_app_cmd\<close>: 0 for a null seed material.\<close>

definition cmd_len_of :: "entropy_csrng_cmd_t \<Rightarrow> uint32_t" where
  "cmd_len_of cmd = (case seed_material cmd of None \<Rightarrow> 0 | Some sm \<Rightarrow> len sm)"

text \<open>"Build and write application command header": the value built in \<open>reg\<close>.\<close>

definition app_cmd_header :: "layout \<Rightarrow> entropy_csrng_cmd_t \<Rightarrow> uint32_t \<Rightarrow> uint32_t" where
  "app_cmd_header L cmd cmd_len =
     (let reg = bitfield_field32_write 0 kAppCmdFieldCmdId (entropy_csrng_op_value (id_cmd cmd));
          reg = bitfield_field32_write reg kAppCmdFieldCmdLen cmd_len;
          reg = bitfield_field32_write reg kAppCmdFieldGlen (generate_len cmd)
      in if launder32 (disable_trng_input cmd) = kHardenedBoolTrue L
         then bitfield_field32_write reg kAppCmdFieldFlag0 (kMultiBitBool4True L)
         else reg)"

text \<open>The loop \<open>for (size_t i = 0; i < cmd_len; ++i)\<close> writing the seed material words.\<close>

function write_seed_material ::
  "uint32_t \<Rightarrow> (nat \<Rightarrow> uint32_t) \<Rightarrow> uint32_t \<Rightarrow> uint32_t \<Rightarrow> unit mmio" where
  "write_seed_material reg_address words cmd_len i =
     (if i < cmd_len
      then seq (abs_mmio_write32 reg_address (words (unat i)))
             (\<lambda>_. write_seed_material reg_address words cmd_len (i + 1))
      else ret ())"
  by pat_completeness auto
termination
proof (relation "measure (\<lambda>(reg_address, words, cmd_len, i). unat cmd_len - unat i)")
  fix reg_address :: uint32_t and words :: "nat \<Rightarrow> uint32_t" and cmd_len i :: uint32_t
  assume "i < cmd_len"
  then have lt: "unat i < unat cmd_len"
    by (simp add: word_less_nat_alt)
  moreover have "unat cmd_len < 2 ^ 32"
    using unsigned_less [of cmd_len, where 'a = nat] by simp
  ultimately have "unat (i + 1) = Suc (unat i)"
    by (simp add: unat_word_ariths)
  with lt show "((reg_address, words, cmd_len, i + 1), (reg_address, words, cmd_len, i))
      \<in> measure (\<lambda>(reg_address, words, cmd_len, i). unat cmd_len - unat i)"
    by simp
qed simp

declare write_seed_material.simps [simp del]

text \<open>
  \<open>csrng_send_app_cmd\<close>. With a null seed material \<open>cmd_len\<close> is 0 and the loop over
  the seed material reads no word; the model hands it the constant 0 for the words it
  never reads.
\<close>

definition csrng_send_app_cmd ::
  "nat \<Rightarrow> layout \<Rightarrow> uint32_t \<Rightarrow> entropy_csrng_cmd_t \<Rightarrow> status_t mmio" where
  "csrng_send_app_cmd n L reg_address cmd =
     seq (poll_bit32 n (kBaseCsrng L + CSRNG_SW_CMD_STS_REG_OFFSET L)
            (CSRNG_SW_CMD_STS_CMD_RDY_BIT L))
       (\<lambda>_.
     let cmd_len = cmd_len_of cmd in
     if cmd_len AND NOT (mask_field kAppCmdFieldCmdLen) \<noteq> 0 then ret INTERNAL
     else if (case seed_material cmd of None \<Rightarrow> False
              | Some sm \<Rightarrow> misalignment32_of (data_addr sm) \<noteq> 0) then ret INTERNAL
     else
     seq (abs_mmio_write32 (kBaseCsrng L + CSRNG_INTR_STATE_REG_OFFSET L)
            (bitfield_bit32_write 0 (CSRNG_INTR_STATE_CS_CMD_REQ_DONE_BIT L) True))
       (\<lambda>_.
     seq (abs_mmio_write32 reg_address (app_cmd_header L cmd cmd_len))
       (\<lambda>_.
     seq (write_seed_material reg_address
            (case seed_material cmd of None \<Rightarrow> (\<lambda>i. 0) | Some sm \<Rightarrow> data sm) cmd_len 0)
       (\<lambda>_.
     seq (poll_bit32 n (kBaseCsrng L + CSRNG_INTR_STATE_REG_OFFSET L)
            (CSRNG_INTR_STATE_CS_CMD_REQ_DONE_BIT L))
       (\<lambda>_.
     seq (abs_mmio_read32 (kBaseCsrng L + CSRNG_SW_CMD_STS_REG_OFFSET L))
       (\<lambda>reg.
     if bitfield_bit32_read reg (CSRNG_SW_CMD_STS_CMD_STS_BIT L) then ret INTERNAL
     else ret OK_STATUS))))))"

subsection \<open>The blocks\<close>

text \<open>Enables the CSRNG block with the SW application and internal state registers
  enabled.\<close>

definition csrng_configure :: "layout \<Rightarrow> unit mmio" where
  "csrng_configure L =
     (let reg = bitfield_field32_write 0 (CSRNG_CTRL_ENABLE_FIELD L) (kMultiBitBool4True L);
          reg = bitfield_field32_write reg (CSRNG_CTRL_SW_APP_ENABLE_FIELD L)
                  (kMultiBitBool4True L);
          reg = bitfield_field32_write reg (CSRNG_CTRL_READ_INT_STATE_FIELD L)
                  (kMultiBitBool4True L)
      in abs_mmio_write32 (kBaseCsrng L + CSRNG_CTRL_REG_OFFSET L) reg)"

text \<open>Stops a given EDN instance and resets its CSRNG command buffer.\<close>

definition edn_stop :: "layout \<Rightarrow> uint32_t \<Rightarrow> unit mmio" where
  "edn_stop L edn_address =
     seq (abs_mmio_read32 (edn_address + EDN_CTRL_REG_OFFSET L))
       (\<lambda>reg.
     seq (abs_mmio_write32 (edn_address + EDN_CTRL_REG_OFFSET L)
            (bitfield_field32_write reg (EDN_CTRL_CMD_FIFO_RST_FIELD L)
               (kMultiBitBool4True L)))
       (\<lambda>_.
     abs_mmio_write32 (edn_address + EDN_CTRL_REG_OFFSET L) (EDN_CTRL_REG_RESVAL L)))"

text \<open>Blocks until the EDN instance is ready to execute a new CSRNG command.\<close>

definition edn_ready_block :: "nat \<Rightarrow> layout \<Rightarrow> uint32_t \<Rightarrow> status_t mmio" where
  "edn_ready_block n L edn_address =
     seq (poll_bit32 n (edn_address + EDN_SW_CMD_STS_REG_OFFSET L)
            (EDN_SW_CMD_STS_CMD_RDY_BIT L))
       (\<lambda>reg.
     if bitfield_bit32_read reg (EDN_SW_CMD_STS_CMD_STS_BIT L) then ret INTERNAL
     else ret OK_STATUS)"

text \<open>Configures an EDN instance based on \<open>config\<close>.\<close>

definition edn_configure :: "nat \<Rightarrow> layout \<Rightarrow> edn_config_t \<Rightarrow> status_t mmio" where
  "edn_configure n L config =
     TRY (csrng_send_app_cmd n L (base_address config + EDN_RESEED_CMD_REG_OFFSET L)
            (reseed config))
    (TRY (csrng_send_app_cmd n L (base_address config + EDN_GENERATE_CMD_REG_OFFSET L)
            (generate config))
    (seq (abs_mmio_write32
            (base_address config + EDN_MAX_NUM_REQS_BETWEEN_RESEEDS_REG_OFFSET L)
            (reseed_interval config))
       (\<lambda>_.
     let reg = bitfield_field32_write 0 (EDN_CTRL_EDN_ENABLE_FIELD L) (kMultiBitBool4True L);
         reg = bitfield_field32_write reg (EDN_CTRL_AUTO_REQ_MODE_FIELD L)
                 (kMultiBitBool4True L)
     in
     seq (abs_mmio_write32 (base_address config + EDN_CTRL_REG_OFFSET L) reg)
       (\<lambda>_.
     TRY (edn_ready_block n L (base_address config))
    (TRY (csrng_send_app_cmd n L (base_address config + EDN_SW_CMD_REQ_REG_OFFSET L)
            (instantiate config))
    (edn_ready_block n L (base_address config)))))))"

text \<open>Stops the current mode of operation and disables the entropy_src module. All
  configuration registers are set to their reset values.\<close>

definition entropy_src_stop :: "layout \<Rightarrow> unit mmio" where
  "entropy_src_stop L =
     seq (abs_mmio_write32 (kBaseEntropySrc L + ENTROPY_SRC_MODULE_ENABLE_REG_OFFSET L)
            (ENTROPY_SRC_MODULE_ENABLE_REG_RESVAL L))
       (\<lambda>_.
     seq (abs_mmio_write32 (kBaseEntropySrc L + ENTROPY_SRC_ENTROPY_CONTROL_REG_OFFSET L)
            (ENTROPY_SRC_ENTROPY_CONTROL_REG_RESVAL L))
       (\<lambda>_.
     seq (abs_mmio_write32 (kBaseEntropySrc L + ENTROPY_SRC_CONF_REG_OFFSET L)
            (ENTROPY_SRC_CONF_REG_RESVAL L))
       (\<lambda>_.
     seq (abs_mmio_write32 (kBaseEntropySrc L + ENTROPY_SRC_HEALTH_TEST_WINDOWS_REG_OFFSET L)
            (ENTROPY_SRC_HEALTH_TEST_WINDOWS_REG_RESVAL L))
       (\<lambda>_.
     abs_mmio_write32 (kBaseEntropySrc L + ENTROPY_SRC_ALERT_THRESHOLD_REG_OFFSET L)
       (ENTROPY_SRC_ALERT_THRESHOLD_REG_RESVAL L)))))"

text \<open>Disables the entropy complex: first EDN, then CSRNG and entropy_src last.\<close>

definition entropy_complex_stop_all :: "layout \<Rightarrow> unit mmio" where
  "entropy_complex_stop_all L =
     seq (edn_stop L (kBaseEdn0 L))
       (\<lambda>_.
     seq (edn_stop L (kBaseEdn1 L))
       (\<lambda>_.
     seq (abs_mmio_write32 (kBaseCsrng L + CSRNG_CTRL_REG_OFFSET L) (CSRNG_CTRL_REG_RESVAL L))
       (\<lambda>_.
     entropy_src_stop L)))"

text \<open>
  Configures the entropy_src based on \<open>config\<close>. \<open>~config->alert_threshold\<close> is
  computed after the promotion of the 16-bit threshold to \<open>int\<close>, and the result is
  passed as a \<open>uint32_t\<close>.
\<close>

definition entropy_src_configure :: "layout \<Rightarrow> entropy_complex_config_t \<Rightarrow> status_t mmio" where
  "entropy_src_configure L config =
     (let reg = bitfield_field32_write 0 (ENTROPY_SRC_ENTROPY_CONTROL_ES_ROUTE_FIELD L)
                  (route_to_firmware config);
          reg = bitfield_field32_write reg (ENTROPY_SRC_ENTROPY_CONTROL_ES_TYPE_FIELD L)
                  (bypass_conditioner config)
      in
     seq (abs_mmio_write32 (kBaseEntropySrc L + ENTROPY_SRC_ENTROPY_CONTROL_REG_OFFSET L) reg)
       (\<lambda>_.
     let reg = bitfield_field32_write 0 (ENTROPY_SRC_CONF_FIPS_ENABLE_FIELD L)
                 (fips_enable config);
         reg = bitfield_field32_write reg (ENTROPY_SRC_CONF_ENTROPY_DATA_REG_ENABLE_FIELD L)
                 (route_to_firmware config);
         reg = bitfield_field32_write reg (ENTROPY_SRC_CONF_THRESHOLD_SCOPE_FIELD L)
                 (kMultiBitBool4False L);
         reg = bitfield_field32_write reg (ENTROPY_SRC_CONF_RNG_BIT_ENABLE_FIELD L)
                 (single_bit_mode config);
         reg = bitfield_field32_write reg (ENTROPY_SRC_CONF_RNG_BIT_SEL_FIELD L) 0
     in
     seq (abs_mmio_write32 (kBaseEntropySrc L + ENTROPY_SRC_CONF_REG_OFFSET L) reg)
       (\<lambda>_.
     seq (abs_mmio_write32 (kBaseEntropySrc L + ENTROPY_SRC_HEALTH_TEST_WINDOWS_REG_OFFSET L)
            (bitfield_field32_write (ENTROPY_SRC_HEALTH_TEST_WINDOWS_REG_RESVAL L)
               (ENTROPY_SRC_HEALTH_TEST_WINDOWS_FIPS_WINDOW_FIELD L)
               (ucast (fips_test_window_size config))))
       (\<lambda>_.
     let reg = bitfield_field32_write 0 (ENTROPY_SRC_ALERT_THRESHOLD_ALERT_THRESHOLD_FIELD L)
                 (ucast (alert_threshold config));
         reg = bitfield_field32_write reg
                 (ENTROPY_SRC_ALERT_THRESHOLD_ALERT_THRESHOLD_INV_FIELD L)
                 (NOT (ucast (alert_threshold config)))
     in
     seq (abs_mmio_write32 (kBaseEntropySrc L + ENTROPY_SRC_ALERT_THRESHOLD_REG_OFFSET L) reg)
       (\<lambda>_.
     seq (abs_mmio_write32 (kBaseEntropySrc L + ENTROPY_SRC_MODULE_ENABLE_REG_OFFSET L)
            (kMultiBitBool4True L))
       (\<lambda>_.
     ret OK_STATUS))))))"

subsection \<open>The public functions\<close>

text \<open>
  \<open>entropy_complex_init\<close> reads its configuration from the entry
  \<open>kEntropyComplexConfigIdContinuous\<close> (index 0) of the constant table. The body is
  modelled for any contents \<open>config\<close> of that entry, so that the check of the entry's
  \<open>id\<close> has both outcomes; \<open>entropy_complex_init\<close> is the body on the entry of the
  table of the source.
\<close>

definition entropy_complex_init_on ::
  "nat \<Rightarrow> layout \<Rightarrow> entropy_complex_config_t \<Rightarrow> status_t mmio" where
  "entropy_complex_init_on n L config =
     seq (entropy_complex_stop_all L)
       (\<lambda>_.
     if launder32 (entropy_complex_config_id_value (id_config config))
          \<noteq> entropy_complex_config_id_value kEntropyComplexConfigIdContinuous
     then ret INTERNAL
     else
     TRY (entropy_src_configure L config)
    (seq (csrng_configure L)
       (\<lambda>_.
     TRY (edn_configure n L (edn0 config))
    (edn_configure n L (edn1 config)))))"

definition entropy_complex_init :: "nat \<Rightarrow> layout \<Rightarrow> status_t mmio" where
  "entropy_complex_init n L =
     entropy_complex_init_on n L
       (kEntropyComplexConfigs L
          ! unat (entropy_complex_config_id_value kEntropyComplexConfigIdContinuous))"

definition entropy_csrng_instantiate ::
  "nat \<Rightarrow> layout \<Rightarrow> uint32_t \<Rightarrow> entropy_seed_material_t option \<Rightarrow> status_t mmio" where
  "entropy_csrng_instantiate n L disable_trng_input_arg seed_material_arg =
     csrng_send_app_cmd n L (kBaseCsrng L + CSRNG_CMD_REQ_REG_OFFSET L)
       \<lparr>id_cmd = kEntropyDrbgOpInstantiate,
        disable_trng_input = disable_trng_input_arg,
        seed_material = seed_material_arg,
        generate_len = 0\<rparr>"

definition entropy_csrng_reseed ::
  "nat \<Rightarrow> layout \<Rightarrow> uint32_t \<Rightarrow> entropy_seed_material_t option \<Rightarrow> status_t mmio" where
  "entropy_csrng_reseed n L disable_trng_input_arg seed_material_arg =
     csrng_send_app_cmd n L (kBaseCsrng L + CSRNG_CMD_REQ_REG_OFFSET L)
       \<lparr>id_cmd = kEntropyDrbgOpReseed,
        disable_trng_input = disable_trng_input_arg,
        seed_material = seed_material_arg,
        generate_len = 0\<rparr>"

definition entropy_csrng_update ::
  "nat \<Rightarrow> layout \<Rightarrow> entropy_seed_material_t option \<Rightarrow> status_t mmio" where
  "entropy_csrng_update n L seed_material_arg =
     csrng_send_app_cmd n L (kBaseCsrng L + CSRNG_CMD_REQ_REG_OFFSET L)
       \<lparr>id_cmd = kEntropyDrbgOpUpdate,
        disable_trng_input = 0,
        seed_material = seed_material_arg,
        generate_len = 0\<rparr>"

text \<open>
  The local constant \<open>num_128bit_blocks\<close> of \<open>entropy_csrng_generate_start\<close>:
  \<open>(len + 3) / 4\<close>. \<open>size_t\<close> has 32 bits on the target, so \<open>len + 3\<close> wraps
  around at \<open>2 ^ 32\<close>.
\<close>

definition num_128bit_blocks :: "uint32_t \<Rightarrow> uint32_t" where
  "num_128bit_blocks len_arg = (len_arg + 3) div 4"

definition entropy_csrng_generate_start ::
  "nat \<Rightarrow> layout \<Rightarrow> entropy_seed_material_t option \<Rightarrow> uint32_t \<Rightarrow> status_t mmio" where
  "entropy_csrng_generate_start n L seed_material_arg len_arg =
     csrng_send_app_cmd n L (kBaseCsrng L + CSRNG_CMD_REQ_REG_OFFSET L)
       \<lparr>id_cmd = kEntropyDrbgOpGenerate,
        disable_trng_input = 0,
        seed_material = seed_material_arg,
        generate_len = num_128bit_blocks len_arg\<rparr>"

text \<open>
  The loop of \<open>entropy_csrng_generate_data_get\<close>, from index \<open>i\<close>. The buffer \<open>buf\<close>
  is the caller's memory as a function of the word index; the loop gives it back with the
  words it has stored.
\<close>

function generate_data_get_loop ::
  "nat \<Rightarrow> layout \<Rightarrow> uint32_t \<Rightarrow> uint32_t \<Rightarrow> (nat \<Rightarrow> uint32_t) \<Rightarrow> (nat \<Rightarrow> uint32_t) mmio" where
  "generate_data_get_loop n L len_arg i buf =
     (if i < len_arg
      then
        seq (if i AND (kEntropyCsrngBitsBufferNumWords - 1) \<noteq> 0
             then seq (poll_bit32 n (kBaseCsrng L + CSRNG_GENBITS_VLD_REG_OFFSET L)
                         (CSRNG_GENBITS_VLD_GENBITS_VLD_BIT L))
                    (\<lambda>_. ret ())
             else ret ())
          (\<lambda>_.
        seq (abs_mmio_read32 (kBaseCsrng L + CSRNG_GENBITS_REG_OFFSET L))
          (\<lambda>v.
        generate_data_get_loop n L len_arg (i + 1) (buf(unat i := v))))
      else ret buf)"
  by pat_completeness auto
termination
proof (relation "measure (\<lambda>(n, L, len_arg, i, buf). unat len_arg - unat i)")
  fix n :: nat and L :: layout and len_arg i :: uint32_t and buf :: "nat \<Rightarrow> uint32_t"
    and u :: unit and v :: uint32_t
  assume "i < len_arg"
  then have lt: "unat i < unat len_arg"
    by (simp add: word_less_nat_alt)
  moreover have "unat len_arg < 2 ^ 32"
    using unsigned_less [of len_arg, where 'a = nat] by simp
  ultimately have "unat (i + 1) = Suc (unat i)"
    by (simp add: unat_word_ariths)
  with lt show "((n, L, len_arg, i + 1, buf(unat i := v)), (n, L, len_arg, i, buf))
      \<in> measure (\<lambda>(n, L, len_arg, i, buf). unat len_arg - unat i)"
    by simp
qed simp

declare generate_data_get_loop.simps [simp del]

definition entropy_csrng_generate_data_get ::
  "nat \<Rightarrow> layout \<Rightarrow> (nat \<Rightarrow> uint32_t) \<Rightarrow> uint32_t
     \<Rightarrow> (status_t \<times> (nat \<Rightarrow> uint32_t)) mmio" where
  "entropy_csrng_generate_data_get n L buf len_arg =
     seq (generate_data_get_loop n L len_arg 0 buf) (\<lambda>buf'. ret (OK_STATUS, buf'))"

definition entropy_csrng_generate ::
  "nat \<Rightarrow> layout \<Rightarrow> entropy_seed_material_t option \<Rightarrow> (nat \<Rightarrow> uint32_t) \<Rightarrow> uint32_t
     \<Rightarrow> (status_t \<times> (nat \<Rightarrow> uint32_t)) mmio" where
  "entropy_csrng_generate n L seed_material_arg buf len_arg =
     seq (entropy_csrng_generate_start n L seed_material_arg len_arg)
       (\<lambda>r. if r = OK_STATUS then entropy_csrng_generate_data_get n L buf len_arg
            else ret (r, buf))"

definition entropy_csrng_uninstantiate :: "nat \<Rightarrow> layout \<Rightarrow> status_t mmio" where
  "entropy_csrng_uninstantiate n L =
     csrng_send_app_cmd n L (kBaseCsrng L + CSRNG_CMD_REQ_REG_OFFSET L)
       \<lparr>id_cmd = kEntropyDrbgOpUpdate,
        disable_trng_input = 0,
        seed_material = None,
        generate_len = 0\<rparr>"

subsection \<open>Reading traces; a concrete platform\<close>

text \<open>The register writes of a trace, as pairs of address and value, oldest first.\<close>

fun writes_of :: "event list \<Rightarrow> (uint32_t \<times> uint32_t) list" where
  "writes_of [] = []"
| "writes_of (Read32 a v # es) = writes_of es"
| "writes_of (Write32 a v # es) = (a, v) # writes_of es"

text \<open>\<open>is_read_of as e\<close>: the access \<open>e\<close> is a read of one of the addresses \<open>as\<close>.\<close>

fun is_read_of :: "uint32_t list \<Rightarrow> event \<Rightarrow> bool" where
  "is_read_of as (Read32 a v) = (a \<in> set as)"
| "is_read_of as (Write32 a v) = False"

text \<open>The register that an access reads or writes.\<close>

fun event_addr :: "event \<Rightarrow> uint32_t" where
  "event_addr (Read32 a v) = a"
| "event_addr (Write32 a v) = a"

text \<open>
  The registers that the drain of \<open>N\<close> words accesses, as the specification lists them:
  the output register once for each word, with the valid register before it for the words
  of index 4, 8, 12, ... and for no other word.
\<close>

definition generate_data_get_accesses_claimed :: "layout \<Rightarrow> nat \<Rightarrow> uint32_t list" where
  "generate_data_get_accesses_claimed L N =
     concat (map (\<lambda>i. if i \<noteq> 0 \<and> i mod 4 = 0
                       then [kBaseCsrng L + CSRNG_GENBITS_VLD_REG_OFFSET L,
                             kBaseCsrng L + CSRNG_GENBITS_REG_OFFSET L]
                       else [kBaseCsrng L + CSRNG_GENBITS_REG_OFFSET L])
               [0..<N])"

text \<open>
  The two checks of \<open>csrng_send_app_cmd\<close> that make it return before any write, and the
  writes of a command that passes them: the completion flag, the header and the seed
  material words.
\<close>

definition cmd_rejected :: "entropy_csrng_cmd_t \<Rightarrow> bool" where
  "cmd_rejected cmd =
     (cmd_len_of cmd AND NOT (mask_field kAppCmdFieldCmdLen) \<noteq> 0
      \<or> (case seed_material cmd of None \<Rightarrow> False
          | Some sm \<Rightarrow> misalignment32_of (data_addr sm) \<noteq> 0))"

definition cmd_events :: "layout \<Rightarrow> uint32_t \<Rightarrow> entropy_csrng_cmd_t \<Rightarrow> event list" where
  "cmd_events L reg_address cmd =
     [Write32 (kBaseCsrng L + CSRNG_INTR_STATE_REG_OFFSET L)
        (bitfield_bit32_write 0 (CSRNG_INTR_STATE_CS_CMD_REQ_DONE_BIT L) True),
      Write32 reg_address (app_cmd_header L cmd (cmd_len_of cmd))]
     @ map (\<lambda>k. Write32 reg_address
              ((case seed_material cmd of None \<Rightarrow> (\<lambda>i. 0) | Some sm \<Rightarrow> data sm) k))
         [0..<unat (cmd_len_of cmd)]"

text \<open>
  The register writes of \<open>entropy_complex_stop_all\<close> as the specification lists them:
  the disable sequence of each EDN (\<open>r0\<close> and \<open>r1\<close> are the values read from their
  control registers), the reset of the CSRNG control register, and four writes for the
  entropy source: module enable, entropy control, conf and health test windows.
\<close>

definition stop_all_writes_claimed ::
  "layout \<Rightarrow> uint32_t \<Rightarrow> uint32_t \<Rightarrow> (uint32_t \<times> uint32_t) list" where
  "stop_all_writes_claimed L r0 r1 =
     [(kBaseEdn0 L + EDN_CTRL_REG_OFFSET L,
       bitfield_field32_write r0 (EDN_CTRL_CMD_FIFO_RST_FIELD L) (kMultiBitBool4True L)),
      (kBaseEdn0 L + EDN_CTRL_REG_OFFSET L, EDN_CTRL_REG_RESVAL L),
      (kBaseEdn1 L + EDN_CTRL_REG_OFFSET L,
       bitfield_field32_write r1 (EDN_CTRL_CMD_FIFO_RST_FIELD L) (kMultiBitBool4True L)),
      (kBaseEdn1 L + EDN_CTRL_REG_OFFSET L, EDN_CTRL_REG_RESVAL L),
      (kBaseCsrng L + CSRNG_CTRL_REG_OFFSET L, CSRNG_CTRL_REG_RESVAL L),
      (kBaseEntropySrc L + ENTROPY_SRC_MODULE_ENABLE_REG_OFFSET L,
       ENTROPY_SRC_MODULE_ENABLE_REG_RESVAL L),
      (kBaseEntropySrc L + ENTROPY_SRC_ENTROPY_CONTROL_REG_OFFSET L,
       ENTROPY_SRC_ENTROPY_CONTROL_REG_RESVAL L),
      (kBaseEntropySrc L + ENTROPY_SRC_CONF_REG_OFFSET L, ENTROPY_SRC_CONF_REG_RESVAL L),
      (kBaseEntropySrc L + ENTROPY_SRC_HEALTH_TEST_WINDOWS_REG_OFFSET L,
       ENTROPY_SRC_HEALTH_TEST_WINDOWS_REG_RESVAL L)]"

text \<open>
  One choice of the generated constants, to run the model on: the blocks at four distinct
  base addresses, the registers of a block at distinct offsets, 4-bit multi-bit booleans
  6 (true) and 9 (false), hardened booleans 0x739 (true) and 0x1d4 (false).
\<close>

definition example_layout :: layout where
  "example_layout =
    \<lparr>kBaseCsrng = 0x41150000,
     kBaseEntropySrc = 0x41160000,
     kBaseEdn0 = 0x41170000,
     kBaseEdn1 = 0x41180000,
     kMultiBitBool4True = 0x6,
     kMultiBitBool4False = 0x9,
     kHardenedBoolTrue = 0x739,
     kHardenedBoolFalse = 0x1d4,
     CSRNG_INTR_STATE_REG_OFFSET = 0x0,
     CSRNG_INTR_STATE_CS_CMD_REQ_DONE_BIT = 0,
     CSRNG_CTRL_REG_OFFSET = 0x14,
     CSRNG_CTRL_REG_RESVAL = 0x999,
     CSRNG_CTRL_ENABLE_FIELD = \<lparr>mask_field = 0xf, index_field = 0\<rparr>,
     CSRNG_CTRL_SW_APP_ENABLE_FIELD = \<lparr>mask_field = 0xf, index_field = 4\<rparr>,
     CSRNG_CTRL_READ_INT_STATE_FIELD = \<lparr>mask_field = 0xf, index_field = 8\<rparr>,
     CSRNG_CMD_REQ_REG_OFFSET = 0x18,
     CSRNG_SW_CMD_STS_REG_OFFSET = 0x1c,
     CSRNG_SW_CMD_STS_CMD_RDY_BIT = 0,
     CSRNG_SW_CMD_STS_CMD_STS_BIT = 1,
     CSRNG_GENBITS_VLD_REG_OFFSET = 0x20,
     CSRNG_GENBITS_VLD_GENBITS_VLD_BIT = 0,
     CSRNG_GENBITS_REG_OFFSET = 0x24,
     EDN_CTRL_REG_OFFSET = 0x14,
     EDN_CTRL_REG_RESVAL = 0x9999,
     EDN_CTRL_EDN_ENABLE_FIELD = \<lparr>mask_field = 0xf, index_field = 0\<rparr>,
     EDN_CTRL_AUTO_REQ_MODE_FIELD = \<lparr>mask_field = 0xf, index_field = 8\<rparr>,
     EDN_CTRL_CMD_FIFO_RST_FIELD = \<lparr>mask_field = 0xf, index_field = 12\<rparr>,
     EDN_SW_CMD_REQ_REG_OFFSET = 0x20,
     EDN_SW_CMD_STS_REG_OFFSET = 0x24,
     EDN_SW_CMD_STS_CMD_RDY_BIT = 0,
     EDN_SW_CMD_STS_CMD_STS_BIT = 1,
     EDN_RESEED_CMD_REG_OFFSET = 0x28,
     EDN_GENERATE_CMD_REG_OFFSET = 0x2c,
     EDN_MAX_NUM_REQS_BETWEEN_RESEEDS_REG_OFFSET = 0x30,
     ENTROPY_SRC_MODULE_ENABLE_REG_OFFSET = 0x20,
     ENTROPY_SRC_MODULE_ENABLE_REG_RESVAL = 0x9,
     ENTROPY_SRC_CONF_REG_OFFSET = 0x24,
     ENTROPY_SRC_CONF_REG_RESVAL = 0x2649999,
     ENTROPY_SRC_CONF_FIPS_ENABLE_FIELD = \<lparr>mask_field = 0xf, index_field = 0\<rparr>,
     ENTROPY_SRC_CONF_ENTROPY_DATA_REG_ENABLE_FIELD = \<lparr>mask_field = 0xf, index_field = 4\<rparr>,
     ENTROPY_SRC_CONF_THRESHOLD_SCOPE_FIELD = \<lparr>mask_field = 0xf, index_field = 12\<rparr>,
     ENTROPY_SRC_CONF_RNG_BIT_ENABLE_FIELD = \<lparr>mask_field = 0xf, index_field = 20\<rparr>,
     ENTROPY_SRC_CONF_RNG_BIT_SEL_FIELD = \<lparr>mask_field = 0x3, index_field = 24\<rparr>,
     ENTROPY_SRC_ENTROPY_CONTROL_REG_OFFSET = 0x28,
     ENTROPY_SRC_ENTROPY_CONTROL_REG_RESVAL = 0x99,
     ENTROPY_SRC_ENTROPY_CONTROL_ES_ROUTE_FIELD = \<lparr>mask_field = 0xf, index_field = 0\<rparr>,
     ENTROPY_SRC_ENTROPY_CONTROL_ES_TYPE_FIELD = \<lparr>mask_field = 0xf, index_field = 4\<rparr>,
     ENTROPY_SRC_HEALTH_TEST_WINDOWS_REG_OFFSET = 0x30,
     ENTROPY_SRC_HEALTH_TEST_WINDOWS_REG_RESVAL = 0x600200,
     ENTROPY_SRC_HEALTH_TEST_WINDOWS_FIPS_WINDOW_FIELD =
       \<lparr>mask_field = 0xffff, index_field = 0\<rparr>,
     ENTROPY_SRC_ALERT_THRESHOLD_REG_OFFSET = 0xa8,
     ENTROPY_SRC_ALERT_THRESHOLD_REG_RESVAL = 0xfffd0002,
     ENTROPY_SRC_ALERT_THRESHOLD_ALERT_THRESHOLD_FIELD =
       \<lparr>mask_field = 0xffff, index_field = 0\<rparr>,
     ENTROPY_SRC_ALERT_THRESHOLD_ALERT_THRESHOLD_INV_FIELD =
       \<lparr>mask_field = 0xffff, index_field = 16\<rparr>\<rparr>"

text \<open>
  A device for that layout: every status, interrupt-state and valid register reads 1 (ready,
  done, valid, no error), and every other register reads the number of accesses made
  before.
\<close>

definition example_dev :: "event list \<Rightarrow> uint32_t \<Rightarrow> uint32_t" where
  "example_dev h a =
     (if a \<in> {0x4115001c, 0x41150000, 0x41150020, 0x41170024, 0x41180024} then 1
      else of_nat (length h))"

definition example_hw :: hw where
  "example_hw = \<lparr>dev = example_dev, trace = []\<rparr>"

section \<open>Properties\<close>

subsection \<open>Running the model on the concrete platform\<close>

lemma example_layout_simps:
  "kBaseCsrng example_layout = 0x41150000"
  "kBaseEntropySrc example_layout = 0x41160000"
  "kBaseEdn0 example_layout = 0x41170000"
  "kBaseEdn1 example_layout = 0x41180000"
  "kMultiBitBool4True example_layout = 0x6"
  "kMultiBitBool4False example_layout = 0x9"
  "kHardenedBoolTrue example_layout = 0x739"
  "kHardenedBoolFalse example_layout = 0x1d4"
  "CSRNG_INTR_STATE_REG_OFFSET example_layout = 0x0"
  "CSRNG_INTR_STATE_CS_CMD_REQ_DONE_BIT example_layout = 0"
  "CSRNG_CTRL_REG_OFFSET example_layout = 0x14"
  "CSRNG_CTRL_REG_RESVAL example_layout = 0x999"
  "CSRNG_CTRL_ENABLE_FIELD example_layout = \<lparr>mask_field = 0xf, index_field = 0\<rparr>"
  "CSRNG_CTRL_SW_APP_ENABLE_FIELD example_layout = \<lparr>mask_field = 0xf, index_field = 4\<rparr>"
  "CSRNG_CTRL_READ_INT_STATE_FIELD example_layout = \<lparr>mask_field = 0xf, index_field = 8\<rparr>"
  "CSRNG_CMD_REQ_REG_OFFSET example_layout = 0x18"
  "CSRNG_SW_CMD_STS_REG_OFFSET example_layout = 0x1c"
  "CSRNG_SW_CMD_STS_CMD_RDY_BIT example_layout = 0"
  "CSRNG_SW_CMD_STS_CMD_STS_BIT example_layout = 1"
  "CSRNG_GENBITS_VLD_REG_OFFSET example_layout = 0x20"
  "CSRNG_GENBITS_VLD_GENBITS_VLD_BIT example_layout = 0"
  "CSRNG_GENBITS_REG_OFFSET example_layout = 0x24"
  "EDN_CTRL_REG_OFFSET example_layout = 0x14"
  "EDN_CTRL_REG_RESVAL example_layout = 0x9999"
  "EDN_CTRL_EDN_ENABLE_FIELD example_layout = \<lparr>mask_field = 0xf, index_field = 0\<rparr>"
  "EDN_CTRL_AUTO_REQ_MODE_FIELD example_layout = \<lparr>mask_field = 0xf, index_field = 8\<rparr>"
  "EDN_CTRL_CMD_FIFO_RST_FIELD example_layout = \<lparr>mask_field = 0xf, index_field = 12\<rparr>"
  "EDN_SW_CMD_REQ_REG_OFFSET example_layout = 0x20"
  "EDN_SW_CMD_STS_REG_OFFSET example_layout = 0x24"
  "EDN_SW_CMD_STS_CMD_RDY_BIT example_layout = 0"
  "EDN_SW_CMD_STS_CMD_STS_BIT example_layout = 1"
  "EDN_RESEED_CMD_REG_OFFSET example_layout = 0x28"
  "EDN_GENERATE_CMD_REG_OFFSET example_layout = 0x2c"
  "EDN_MAX_NUM_REQS_BETWEEN_RESEEDS_REG_OFFSET example_layout = 0x30"
  "ENTROPY_SRC_MODULE_ENABLE_REG_OFFSET example_layout = 0x20"
  "ENTROPY_SRC_MODULE_ENABLE_REG_RESVAL example_layout = 0x9"
  "ENTROPY_SRC_CONF_REG_OFFSET example_layout = 0x24"
  "ENTROPY_SRC_CONF_REG_RESVAL example_layout = 0x2649999"
  "ENTROPY_SRC_CONF_FIPS_ENABLE_FIELD example_layout = \<lparr>mask_field = 0xf, index_field = 0\<rparr>"
  "ENTROPY_SRC_CONF_ENTROPY_DATA_REG_ENABLE_FIELD example_layout = \<lparr>mask_field = 0xf, index_field = 4\<rparr>"
  "ENTROPY_SRC_CONF_THRESHOLD_SCOPE_FIELD example_layout = \<lparr>mask_field = 0xf, index_field = 12\<rparr>"
  "ENTROPY_SRC_CONF_RNG_BIT_ENABLE_FIELD example_layout = \<lparr>mask_field = 0xf, index_field = 20\<rparr>"
  "ENTROPY_SRC_CONF_RNG_BIT_SEL_FIELD example_layout = \<lparr>mask_field = 0x3, index_field = 24\<rparr>"
  "ENTROPY_SRC_ENTROPY_CONTROL_REG_OFFSET example_layout = 0x28"
  "ENTROPY_SRC_ENTROPY_CONTROL_REG_RESVAL example_layout = 0x99"
  "ENTROPY_SRC_ENTROPY_CONTROL_ES_ROUTE_FIELD example_layout = \<lparr>mask_field = 0xf, index_field = 0\<rparr>"
  "ENTROPY_SRC_ENTROPY_CONTROL_ES_TYPE_FIELD example_layout = \<lparr>mask_field = 0xf, index_field = 4\<rparr>"
  "ENTROPY_SRC_HEALTH_TEST_WINDOWS_REG_OFFSET example_layout = 0x30"
  "ENTROPY_SRC_HEALTH_TEST_WINDOWS_REG_RESVAL example_layout = 0x600200"
  "ENTROPY_SRC_HEALTH_TEST_WINDOWS_FIPS_WINDOW_FIELD example_layout = \<lparr>mask_field = 0xffff, index_field = 0\<rparr>"
  "ENTROPY_SRC_ALERT_THRESHOLD_REG_OFFSET example_layout = 0xa8"
  "ENTROPY_SRC_ALERT_THRESHOLD_REG_RESVAL example_layout = 0xfffd0002"
  "ENTROPY_SRC_ALERT_THRESHOLD_ALERT_THRESHOLD_FIELD example_layout = \<lparr>mask_field = 0xffff, index_field = 0\<rparr>"
  "ENTROPY_SRC_ALERT_THRESHOLD_ALERT_THRESHOLD_INV_FIELD example_layout = \<lparr>mask_field = 0xffff, index_field = 16\<rparr>"
  by (simp_all add: example_layout_def)

lemmas run_simps =
  entropy_complex_init_def entropy_complex_init_on_def entropy_complex_stop_all_def edn_stop_def
  entropy_src_stop_def entropy_src_configure_def csrng_configure_def edn_configure_def
  edn_ready_block_def csrng_send_app_cmd_def TRY_def seq_def ret_def abs_mmio_read32_def
  abs_mmio_write32_def Let_def kEntropyComplexConfigs_def launder32_def misalignment32_of_def
  cmd_len_of_def app_cmd_header_def bitfield_field32_read_def bitfield_field32_write_def
  bitfield_bit32_to_field32_def bitfield_bit32_read_def bitfield_bit32_write_def
  kAppCmdFieldFlag0_def kAppCmdFieldCmdId_def kAppCmdFieldCmdLen_def kAppCmdFieldGlen_def
  write_seed_material.simps generate_data_get_loop.simps entropy_csrng_generate_def
  entropy_csrng_generate_start_def entropy_csrng_generate_data_get_def num_128bit_blocks_def
  entropy_csrng_instantiate_def entropy_csrng_reseed_def entropy_csrng_update_def
  entropy_csrng_uninstantiate_def kEntropyCsrngBitsBufferNumWords_def cmd_rejected_def
  example_dev_def example_hw_def example_layout_simps

subsection \<open>Traces and polling\<close>

lemma writes_of_append [simp]: "writes_of (xs @ ys) = writes_of xs @ writes_of ys"
  by (induction xs rule: writes_of.induct) simp_all

lemma writes_of_map_Read32 [simp]: "writes_of (map (Read32 a) vs) = []"
  by (induction vs) simp_all

lemma writes_of_map_Write32 [simp]:
  "writes_of (map (\<lambda>k. Write32 a (f k)) ks) = map (\<lambda>k. (a, f k)) ks"
  by (induction ks) simp_all

lemma poll_bit32_dev [simp]: "dev (snd (poll_bit32 n a b s)) = dev s"
  by (induction n arbitrary: s)
     (simp_all add: seq_def ret_def abs_mmio_read32_def Let_def)

lemma poll_bit32_trace:
  "\<exists>vs. trace (snd (poll_bit32 n a b s)) = trace s @ map (Read32 a) vs"
proof (induction n arbitrary: s)
  case 0
  show ?case by simp
next
  case (Suc n)
  let ?v = "dev s (trace s) a"
  let ?s1 = "s\<lparr>trace := trace s @ [Read32 a ?v]\<rparr>"
  show ?case
  proof (cases "bitfield_bit32_read ?v b")
    case True
    then have "trace (snd (poll_bit32 (Suc n) a b s)) = trace s @ map (Read32 a) [?v]"
      by (simp add: seq_def ret_def abs_mmio_read32_def Let_def)
    then show ?thesis by blast
  next
    case False
    then have eq: "poll_bit32 (Suc n) a b s = poll_bit32 n a b ?s1"
      by (simp add: seq_def ret_def abs_mmio_read32_def Let_def)
    from Suc.IH [of ?s1] obtain vs where
      "trace (snd (poll_bit32 n a b ?s1)) = trace ?s1 @ map (Read32 a) vs" ..
    with eq have "trace (snd (poll_bit32 (Suc n) a b s)) = trace s @ map (Read32 a) (?v # vs)"
      by simp
    then show ?thesis by blast
  qed
qed

lemma poll_bit32_writes [simp]:
  "writes_of (trace (snd (poll_bit32 n a b s))) = writes_of (trace s)"
  using poll_bit32_trace [of n a b s] by auto

lemma poll_bit32_state:
  assumes "poll_bit32 n a b s = (r, s')"
  shows "dev s' = dev s" and "\<exists>vs. trace s' = trace s @ map (Read32 a) vs"
  using assms poll_bit32_dev [of n a b s] poll_bit32_trace [of n a b s]
  by (simp_all del: poll_bit32_dev)

lemma unat_Suc_less:
  fixes i k :: uint32_t
  assumes "i < k"
  shows "unat (i + 1) = Suc (unat i)"
proof -
  from assms have "unat i < unat k"
    by (simp add: word_less_nat_alt)
  moreover have "unat k < 2 ^ 32"
    using unsigned_less [of k, where 'a = nat] by simp
  ultimately show ?thesis
    by (simp add: unat_word_ariths)
qed

subsection \<open>The output drain\<close>

lemma generate_data_get_loop_step:
  assumes "i < len_arg"
  shows "generate_data_get_loop n L len_arg i buf s =
     (case (if i AND (kEntropyCsrngBitsBufferNumWords - 1) \<noteq> 0
            then poll_bit32 n (kBaseCsrng L + CSRNG_GENBITS_VLD_REG_OFFSET L)
                   (CSRNG_GENBITS_VLD_GENBITS_VLD_BIT L) s
            else (Some 0, s)) of
        (None, s1) \<Rightarrow> (None, s1)
      | (Some r, s1) \<Rightarrow>
          (let v = dev s1 (trace s1) (kBaseCsrng L + CSRNG_GENBITS_REG_OFFSET L) in
           generate_data_get_loop n L len_arg (i + 1) (buf(unat i := v))
             (s1\<lparr>trace := trace s1 @ [Read32 (kBaseCsrng L + CSRNG_GENBITS_REG_OFFSET L) v]\<rparr>)))"
  using assms
  by (subst generate_data_get_loop.simps)
     (simp add: seq_def ret_def abs_mmio_read32_def Let_def split: prod.splits option.splits)

lemma generate_data_get_loop_stop:
  assumes "\<not> i < len_arg"
  shows "generate_data_get_loop n L len_arg i buf s = (Some buf, s)"
  using assms by (subst generate_data_get_loop.simps) (simp add: ret_def)

text \<open>
  C1. The claim: draining N words polls "output valid" immediately before the words of
  index 4, 8, 12, ... and before no other word, and reads N words in order.
  The code polls when \<open>i & 3\<close> is not zero. On five words it polls before the words of
  index 1, 2 and 3 and reads the word of index 4 (the first of the second chunk) without a
  poll, where the claim has four reads, one poll and the fifth read. In the trace below,
  \<open>0x41150020\<close> is the valid register and \<open>0x41150024\<close> the output register.
\<close>

theorem generate_data_get_polls_inside_chunk:
  "trace (snd (entropy_csrng_generate_data_get 1 example_layout (\<lambda>i. 0) 5 example_hw)) =
     [Read32 0x41150024 0,
      Read32 0x41150020 1, Read32 0x41150024 2,
      Read32 0x41150020 1, Read32 0x41150024 4,
      Read32 0x41150020 1, Read32 0x41150024 6,
      Read32 0x41150024 7]
   \<and> generate_data_get_accesses_claimed example_layout 5 =
     [0x41150024, 0x41150024, 0x41150024, 0x41150024, 0x41150020, 0x41150024]
   \<and> map event_addr
       (trace (snd (entropy_csrng_generate_data_get 1 example_layout (\<lambda>i. 0) 5 example_hw)))
     \<noteq> generate_data_get_accesses_claimed example_layout 5"
proof -
  have a: "trace (snd (entropy_csrng_generate_data_get 1 example_layout (\<lambda>i. 0) 5 example_hw)) =
     [Read32 0x41150024 0,
      Read32 0x41150020 1, Read32 0x41150024 2,
      Read32 0x41150020 1, Read32 0x41150024 4,
      Read32 0x41150020 1, Read32 0x41150024 6,
      Read32 0x41150024 7]"
    by (simp add: run_simps)
  have b: "generate_data_get_accesses_claimed example_layout 5 =
     [0x41150024, 0x41150024, 0x41150024, 0x41150024, 0x41150020, 0x41150024]"
    by (simp add: generate_data_get_accesses_claimed_def example_layout_simps upt_rec)
  show ?thesis
    unfolding a b by simp
qed

lemma generate_data_get_loop_reads:
  "dev (snd (generate_data_get_loop n L len_arg i buf s)) = dev s \<and>
   (\<exists>es. trace (snd (generate_data_get_loop n L len_arg i buf s)) = trace s @ es \<and>
      list_all (is_read_of [kBaseCsrng L + CSRNG_GENBITS_VLD_REG_OFFSET L,
                            kBaseCsrng L + CSRNG_GENBITS_REG_OFFSET L]) es)"
proof (induction n L len_arg i buf arbitrary: s rule: generate_data_get_loop.induct)
  case (1 n L len_arg i buf)
  let ?V = "kBaseCsrng L + CSRNG_GENBITS_VLD_REG_OFFSET L"
  let ?G = "kBaseCsrng L + CSRNG_GENBITS_REG_OFFSET L"
  show ?case
  proof (cases "i < len_arg")
    case False
    then show ?thesis by (simp add: generate_data_get_loop_stop)
  next
    case True
    let ?pre = "if i AND (kEntropyCsrngBitsBufferNumWords - 1) \<noteq> 0
            then poll_bit32 n ?V (CSRNG_GENBITS_VLD_GENBITS_VLD_BIT L) s
            else (Some 0, s)"
    obtain r s1 where pre: "?pre = (r, s1)" by (cases ?pre)
    have dev1: "dev s1 = dev s"
      using pre by (auto split: if_splits dest: poll_bit32_state(1))
    have "\<exists>vs. trace s1 = trace s @ map (Read32 ?V) vs"
    proof (cases "i AND (kEntropyCsrngBitsBufferNumWords - 1) \<noteq> 0")
      case True
      with pre show ?thesis by (auto dest: poll_bit32_state(2))
    next
      case False
      with pre have "trace s1 = trace s @ map (Read32 ?V) []" by simp
      then show ?thesis by blast
    qed
    then obtain vs where tr1: "trace s1 = trace s @ map (Read32 ?V) vs" ..
    have vs: "list_all (is_read_of [?V, ?G]) (map (Read32 ?V) vs)"
      by (simp add: list_all_iff)
    show ?thesis
    proof (cases r)
      case None
      have "generate_data_get_loop n L len_arg i buf s = (None, s1)"
        using pre True None by (simp add: generate_data_get_loop_step)
      with tr1 dev1 vs show ?thesis
        by auto
    next
      case (Some x)
      let ?v = "dev s1 (trace s1) ?G"
      let ?s2 = "s1\<lparr>trace := trace s1 @ [Read32 ?G ?v]\<rparr>"
      have run: "generate_data_get_loop n L len_arg i buf s =
          generate_data_get_loop n L len_arg (i + 1) (buf(unat i := ?v)) ?s2"
        using pre True Some by (simp add: generate_data_get_loop_step Let_def)
      from "1.IH" [OF True, of ?v ?s2] obtain es where
        d: "dev (snd (generate_data_get_loop n L len_arg (i + 1) (buf(unat i := ?v)) ?s2)) = dev ?s2"
        and t: "trace (snd (generate_data_get_loop n L len_arg (i + 1) (buf(unat i := ?v)) ?s2))
            = trace ?s2 @ es"
        and r: "list_all (is_read_of [?V, ?G]) es"
        by blast
      have t': "trace (snd (generate_data_get_loop n L len_arg i buf s)) =
          trace s @ (map (Read32 ?V) vs @ Read32 ?G ?v # es)"
        using run t tr1 by simp
      have r': "list_all (is_read_of [?V, ?G]) (map (Read32 ?V) vs @ Read32 ?G ?v # es)"
        using vs r by simp
      have d': "dev (snd (generate_data_get_loop n L len_arg i buf s)) = dev s"
        using run d dev1 by simp
      from t' r' have "\<exists>es. trace (snd (generate_data_get_loop n L len_arg i buf s)) =
          trace s @ es \<and> list_all (is_read_of [?V, ?G]) es"
        by blast
      with d' show ?thesis ..
    qed
  qed
qed

lemma hw_rebuild: "\<lparr>dev = dev s, trace = trace s\<rparr> = (s :: hw)"
  by (cases s) simp

lemma generate_data_get_loop_returns:
  fixes s :: hw
  assumes "\<And>h. fst (poll_bit32 n (kBaseCsrng L + CSRNG_GENBITS_VLD_REG_OFFSET L)
      (CSRNG_GENBITS_VLD_GENBITS_VLD_BIT L) \<lparr>dev = dev s, trace = h\<rparr>) \<noteq> None"
  shows "fst (generate_data_get_loop n L len_arg i buf s) \<noteq> None"
  using assms
proof (induction n L len_arg i buf arbitrary: s rule: generate_data_get_loop.induct)
  case (1 n L len_arg i buf)
  let ?V = "kBaseCsrng L + CSRNG_GENBITS_VLD_REG_OFFSET L"
  let ?G = "kBaseCsrng L + CSRNG_GENBITS_REG_OFFSET L"
  show ?case
  proof (cases "i < len_arg")
    case False
    then show ?thesis by (simp add: generate_data_get_loop_stop)
  next
    case True
    let ?pre = "if i AND (kEntropyCsrngBitsBufferNumWords - 1) \<noteq> 0
            then poll_bit32 n ?V (CSRNG_GENBITS_VLD_GENBITS_VLD_BIT L) s
            else (Some 0, s)"
    obtain r s1 where pre: "?pre = (r, s1)" by (cases ?pre)
    have dev1: "dev s1 = dev s"
      using pre by (auto split: if_splits dest: poll_bit32_state(1))
    have "fst (poll_bit32 n ?V (CSRNG_GENBITS_VLD_GENBITS_VLD_BIT L) s) \<noteq> None"
      using "1.prems" [of "trace s"] by (simp add: hw_rebuild)
    with pre obtain x where r: "r = Some x"
      by (cases r) (auto split: if_splits)
    let ?v = "dev s1 (trace s1) ?G"
    let ?s2 = "s1\<lparr>trace := trace s1 @ [Read32 ?G ?v]\<rparr>"
    have run: "generate_data_get_loop n L len_arg i buf s =
        generate_data_get_loop n L len_arg (i + 1) (buf(unat i := ?v)) ?s2"
      using pre True r by (simp add: generate_data_get_loop_step Let_def)
    have prems2: "\<And>h. fst (poll_bit32 n ?V (CSRNG_GENBITS_VLD_GENBITS_VLD_BIT L)
        \<lparr>dev = dev ?s2, trace = h\<rparr>) \<noteq> None"
      using "1.prems" dev1 by simp
    have "fst (generate_data_get_loop n L len_arg (i + 1) (buf(unat i := ?v)) ?s2) \<noteq> None"
      by (rule "1.IH" [OF True prems2])
    with run show ?thesis by simp
  qed
qed

text \<open>
  C10. The output drain has no failure path: whatever it returns is the success status;
  the only accesses it makes are reads of the valid register and of the output register (no
  error or status bit is looked at, nothing is written); with word count 0 it makes no
  access at all and returns success; and it does return, with success, on any hardware
  that ends each wait for "output valid" within the allowed number of polls.
\<close>

theorem generate_data_get_no_failure:
  fixes s :: hw
  shows
  "(\<forall>st b. fst (entropy_csrng_generate_data_get n L buf len_arg s) = Some (st, b)
      \<longrightarrow> st = OK_STATUS) \<and>
   (\<exists>es. trace (snd (entropy_csrng_generate_data_get n L buf len_arg s)) = trace s @ es \<and>
      list_all (is_read_of [kBaseCsrng L + CSRNG_GENBITS_VLD_REG_OFFSET L,
                            kBaseCsrng L + CSRNG_GENBITS_REG_OFFSET L]) es) \<and>
   (len_arg = 0 \<longrightarrow>
      entropy_csrng_generate_data_get n L buf len_arg s = (Some (OK_STATUS, buf), s)) \<and>
   ((\<forall>h. fst (poll_bit32 n (kBaseCsrng L + CSRNG_GENBITS_VLD_REG_OFFSET L)
             (CSRNG_GENBITS_VLD_GENBITS_VLD_BIT L) \<lparr>dev = dev s, trace = h\<rparr>) \<noteq> None)
      \<longrightarrow> (\<exists>b. fst (entropy_csrng_generate_data_get n L buf len_arg s) = Some (OK_STATUS, b)))"
proof -
  let ?loop = "generate_data_get_loop n L len_arg 0 buf s"
  obtain r s' where loop: "?loop = (r, s')" by (cases ?loop)
  have get: "entropy_csrng_generate_data_get n L buf len_arg s =
      (case r of None \<Rightarrow> None | Some b \<Rightarrow> Some (OK_STATUS, b), s')"
    using loop by (simp add: entropy_csrng_generate_data_get_def seq_def ret_def split: option.splits)
  have 1: "\<forall>st b. fst (entropy_csrng_generate_data_get n L buf len_arg s) = Some (st, b)
      \<longrightarrow> st = OK_STATUS"
    using get by (auto split: option.splits)
  have 2: "\<exists>es. trace (snd (entropy_csrng_generate_data_get n L buf len_arg s)) = trace s @ es \<and>
      list_all (is_read_of [kBaseCsrng L + CSRNG_GENBITS_VLD_REG_OFFSET L,
                            kBaseCsrng L + CSRNG_GENBITS_REG_OFFSET L]) es"
    using generate_data_get_loop_reads [of n L len_arg 0 buf s] get loop by simp
  have 3: "len_arg = 0 \<longrightarrow>
      entropy_csrng_generate_data_get n L buf len_arg s = (Some (OK_STATUS, buf), s)"
    by (simp add: entropy_csrng_generate_data_get_def seq_def ret_def
        generate_data_get_loop_stop)
  have 4: "(\<forall>h. fst (poll_bit32 n (kBaseCsrng L + CSRNG_GENBITS_VLD_REG_OFFSET L)
             (CSRNG_GENBITS_VLD_GENBITS_VLD_BIT L) \<lparr>dev = dev s, trace = h\<rparr>) \<noteq> None)
      \<longrightarrow> (\<exists>b. fst (entropy_csrng_generate_data_get n L buf len_arg s) = Some (OK_STATUS, b))"
  proof
    assume "\<forall>h. fst (poll_bit32 n (kBaseCsrng L + CSRNG_GENBITS_VLD_REG_OFFSET L)
             (CSRNG_GENBITS_VLD_GENBITS_VLD_BIT L) \<lparr>dev = dev s, trace = h\<rparr>) \<noteq> None"
    then have "fst ?loop \<noteq> None"
      using generate_data_get_loop_returns [of n L s len_arg 0 buf] by blast
    with loop get show "\<exists>b. fst (entropy_csrng_generate_data_get n L buf len_arg s) = Some (OK_STATUS, b)"
      by (cases r) simp_all
  qed
  from 1 2 3 4 show ?thesis by blast
qed

theorem generate_data_get_no_failure_witness:
  "(\<forall>h. fst (poll_bit32 1 0x41150020 0 \<lparr>dev = example_dev, trace = h\<rparr>) \<noteq> None) \<and>
   (\<exists>b. fst (entropy_csrng_generate_data_get 1 example_layout (\<lambda>i. 0) 5 example_hw)
      = Some (OK_STATUS, b)) \<and>
   entropy_csrng_generate_data_get 1 example_layout (\<lambda>i. 7) 0 example_hw
      = (Some (OK_STATUS, \<lambda>i. 7), example_hw)"
proof -
  have h: "\<forall>h. fst (poll_bit32 1 0x41150020 0 \<lparr>dev = example_dev, trace = h\<rparr>) \<noteq> None"
    by (simp add: seq_def ret_def abs_mmio_read32_def example_dev_def bitfield_bit32_read_def
        bitfield_field32_read_def bitfield_bit32_to_field32_def)
  have l: "kBaseCsrng example_layout + CSRNG_GENBITS_VLD_REG_OFFSET example_layout = 0x41150020"
    "CSRNG_GENBITS_VLD_GENBITS_VLD_BIT example_layout = 0" "dev example_hw = example_dev"
    by (simp_all add: example_layout_def example_hw_def)
  show ?thesis
    using h generate_data_get_no_failure [of 1 example_layout "\<lambda>i. 0" 5 example_hw]
      generate_data_get_no_failure [of 1 example_layout "\<lambda>i. 7" 0 example_hw]
    by (simp add: l)
qed

subsection \<open>Bit fields\<close>

lemma field_in_range:
  fixes m :: uint32_t
  assumes "drop_bit i (push_bit i m) = m" and "bit m k"
  shows "i + k < 32"
proof -
  from assms have "bit (drop_bit i (push_bit i m)) k" by simp
  then show ?thesis
    by (auto simp add: bit_simps dest: bit_imp_le_length)
qed

lemma field_read_write_same:
  assumes "drop_bit (index_field f) (push_bit (index_field f) (mask_field f)) = mask_field f"
  shows "bitfield_field32_read (bitfield_field32_write r f x) f = x AND mask_field f"
  using field_in_range [OF assms]
  by (auto simp add: bitfield_field32_read_def bitfield_field32_write_def bit_eq_iff bit_simps)

lemma field_read_write_other:
  assumes "push_bit (index_field f) (mask_field f) AND push_bit (index_field g) (mask_field g) = 0"
    and "drop_bit (index_field f) (push_bit (index_field f) (mask_field f)) = mask_field f"
  shows "bitfield_field32_read (bitfield_field32_write r g x) f = bitfield_field32_read r f"
proof -
  have dis: "\<not> (bit (push_bit (index_field f) (mask_field f)) k \<and>
      bit (push_bit (index_field g) (mask_field g)) k)" for k
  proof -
    have "bit (push_bit (index_field f) (mask_field f) AND
        push_bit (index_field g) (mask_field g)) k = bit (0 :: uint32_t) k"
      using assms(1) by simp
    then show ?thesis
      by (simp add: bit_and_iff)
  qed
  show ?thesis
    using field_in_range [OF assms(2)] dis
    apply (auto simp add: bitfield_field32_read_def bitfield_field32_write_def bit_eq_iff bit_simps)
    done
qed


subsection \<open>Stopping and configuring the blocks\<close>

text \<open>
  C2, as the code has it. Every call to \<open>entropy_complex_stop_all\<close> makes these accesses
  in this order and no other: the disable sequence of edn0 (a read of its control register,
  the write that requests the command FIFO reset, the write of the reset value), the same
  for edn1, the write of the reset value of the CSRNG control register, and the reset
  sequence of the entropy source, which is five writes: module enable, entropy control,
  conf, health test windows and alert threshold.
\<close>

theorem stop_all_order:
  "entropy_complex_stop_all L s =
     (let edn0_ctrl = kBaseEdn0 L + EDN_CTRL_REG_OFFSET L;
          edn1_ctrl = kBaseEdn1 L + EDN_CTRL_REG_OFFSET L;
          r0 = dev s (trace s) edn0_ctrl;
          t0 = trace s @
            [Read32 edn0_ctrl r0,
             Write32 edn0_ctrl
               (bitfield_field32_write r0 (EDN_CTRL_CMD_FIFO_RST_FIELD L) (kMultiBitBool4True L)),
             Write32 edn0_ctrl (EDN_CTRL_REG_RESVAL L)];
          r1 = dev s t0 edn1_ctrl
      in (Some (),
          s\<lparr>trace := t0 @
            [Read32 edn1_ctrl r1,
             Write32 edn1_ctrl
               (bitfield_field32_write r1 (EDN_CTRL_CMD_FIFO_RST_FIELD L) (kMultiBitBool4True L)),
             Write32 edn1_ctrl (EDN_CTRL_REG_RESVAL L),
             Write32 (kBaseCsrng L + CSRNG_CTRL_REG_OFFSET L) (CSRNG_CTRL_REG_RESVAL L),
             Write32 (kBaseEntropySrc L + ENTROPY_SRC_MODULE_ENABLE_REG_OFFSET L)
               (ENTROPY_SRC_MODULE_ENABLE_REG_RESVAL L),
             Write32 (kBaseEntropySrc L + ENTROPY_SRC_ENTROPY_CONTROL_REG_OFFSET L)
               (ENTROPY_SRC_ENTROPY_CONTROL_REG_RESVAL L),
             Write32 (kBaseEntropySrc L + ENTROPY_SRC_CONF_REG_OFFSET L)
               (ENTROPY_SRC_CONF_REG_RESVAL L),
             Write32 (kBaseEntropySrc L + ENTROPY_SRC_HEALTH_TEST_WINDOWS_REG_OFFSET L)
               (ENTROPY_SRC_HEALTH_TEST_WINDOWS_REG_RESVAL L),
             Write32 (kBaseEntropySrc L + ENTROPY_SRC_ALERT_THRESHOLD_REG_OFFSET L)
               (ENTROPY_SRC_ALERT_THRESHOLD_REG_RESVAL L)]\<rparr>))"
  by (simp add: entropy_complex_stop_all_def edn_stop_def entropy_src_stop_def seq_def
      abs_mmio_read32_def abs_mmio_write32_def Let_def)

text \<open>
  C2, as the claim has it, with four writes for the entropy source, fails: after the nine
  writes of the claim the code writes the reset value of the alert threshold register.
\<close>

theorem stop_all_four_writes_counterexample:
  "writes_of (trace (snd (entropy_complex_stop_all example_layout example_hw))) =
     stop_all_writes_claimed example_layout 0 3 @ [(0x411600a8, 0xfffd0002)]
   \<and> writes_of (trace (snd (entropy_complex_stop_all example_layout example_hw))) \<noteq>
     stop_all_writes_claimed example_layout 0 3"
  by (simp add: entropy_complex_stop_all_def edn_stop_def entropy_src_stop_def seq_def
      abs_mmio_read32_def abs_mmio_write32_def Let_def stop_all_writes_claimed_def
      example_layout_def example_hw_def example_dev_def)

lemma entropy_src_configure_run:
  "entropy_src_configure L config s =
     (Some OK_STATUS,
      s\<lparr>trace := trace s @
        [Write32 (kBaseEntropySrc L + ENTROPY_SRC_ENTROPY_CONTROL_REG_OFFSET L)
           (bitfield_field32_write
              (bitfield_field32_write 0 (ENTROPY_SRC_ENTROPY_CONTROL_ES_ROUTE_FIELD L)
                 (route_to_firmware config))
              (ENTROPY_SRC_ENTROPY_CONTROL_ES_TYPE_FIELD L) (bypass_conditioner config)),
         Write32 (kBaseEntropySrc L + ENTROPY_SRC_CONF_REG_OFFSET L)
           (bitfield_field32_write
              (bitfield_field32_write
                 (bitfield_field32_write
                    (bitfield_field32_write
                       (bitfield_field32_write 0 (ENTROPY_SRC_CONF_FIPS_ENABLE_FIELD L)
                          (fips_enable config))
                       (ENTROPY_SRC_CONF_ENTROPY_DATA_REG_ENABLE_FIELD L)
                       (route_to_firmware config))
                    (ENTROPY_SRC_CONF_THRESHOLD_SCOPE_FIELD L) (kMultiBitBool4False L))
                 (ENTROPY_SRC_CONF_RNG_BIT_ENABLE_FIELD L) (single_bit_mode config))
              (ENTROPY_SRC_CONF_RNG_BIT_SEL_FIELD L) 0),
         Write32 (kBaseEntropySrc L + ENTROPY_SRC_HEALTH_TEST_WINDOWS_REG_OFFSET L)
           (bitfield_field32_write (ENTROPY_SRC_HEALTH_TEST_WINDOWS_REG_RESVAL L)
              (ENTROPY_SRC_HEALTH_TEST_WINDOWS_FIPS_WINDOW_FIELD L)
              (ucast (fips_test_window_size config))),
         Write32 (kBaseEntropySrc L + ENTROPY_SRC_ALERT_THRESHOLD_REG_OFFSET L)
           (bitfield_field32_write
              (bitfield_field32_write 0 (ENTROPY_SRC_ALERT_THRESHOLD_ALERT_THRESHOLD_FIELD L)
                 (ucast (alert_threshold config)))
              (ENTROPY_SRC_ALERT_THRESHOLD_ALERT_THRESHOLD_INV_FIELD L)
              (NOT (ucast (alert_threshold config)))),
         Write32 (kBaseEntropySrc L + ENTROPY_SRC_MODULE_ENABLE_REG_OFFSET L)
           (kMultiBitBool4True L)]\<rparr>)"
  by (simp add: entropy_src_configure_def seq_def ret_def abs_mmio_write32_def Let_def)


text \<open>
  C5. \<open>entropy_src_configure\<close> writes the alert threshold register once, and in the value
  written the inverse field is the bitwise complement of the threshold field, for every
  threshold, 0 included. The two fields are taken to have the same mask, not to overlap and
  to lie within the 32 bits of the register.
\<close>

theorem alert_threshold_inverse:
  assumes "mask_field (ENTROPY_SRC_ALERT_THRESHOLD_ALERT_THRESHOLD_INV_FIELD L) =
      mask_field (ENTROPY_SRC_ALERT_THRESHOLD_ALERT_THRESHOLD_FIELD L)"
    and "push_bit (index_field (ENTROPY_SRC_ALERT_THRESHOLD_ALERT_THRESHOLD_FIELD L))
           (mask_field (ENTROPY_SRC_ALERT_THRESHOLD_ALERT_THRESHOLD_FIELD L))
         AND push_bit (index_field (ENTROPY_SRC_ALERT_THRESHOLD_ALERT_THRESHOLD_INV_FIELD L))
           (mask_field (ENTROPY_SRC_ALERT_THRESHOLD_ALERT_THRESHOLD_INV_FIELD L)) = 0"
    and "drop_bit (index_field (ENTROPY_SRC_ALERT_THRESHOLD_ALERT_THRESHOLD_FIELD L))
           (push_bit (index_field (ENTROPY_SRC_ALERT_THRESHOLD_ALERT_THRESHOLD_FIELD L))
              (mask_field (ENTROPY_SRC_ALERT_THRESHOLD_ALERT_THRESHOLD_FIELD L)))
         = mask_field (ENTROPY_SRC_ALERT_THRESHOLD_ALERT_THRESHOLD_FIELD L)"
    and "drop_bit (index_field (ENTROPY_SRC_ALERT_THRESHOLD_ALERT_THRESHOLD_INV_FIELD L))
           (push_bit (index_field (ENTROPY_SRC_ALERT_THRESHOLD_ALERT_THRESHOLD_INV_FIELD L))
              (mask_field (ENTROPY_SRC_ALERT_THRESHOLD_ALERT_THRESHOLD_INV_FIELD L)))
         = mask_field (ENTROPY_SRC_ALERT_THRESHOLD_ALERT_THRESHOLD_INV_FIELD L)"
  shows "\<exists>v1 v2 v3 v.
      writes_of (trace (snd (entropy_src_configure L config s))) =
        writes_of (trace s) @
        [(kBaseEntropySrc L + ENTROPY_SRC_ENTROPY_CONTROL_REG_OFFSET L, v1),
         (kBaseEntropySrc L + ENTROPY_SRC_CONF_REG_OFFSET L, v2),
         (kBaseEntropySrc L + ENTROPY_SRC_HEALTH_TEST_WINDOWS_REG_OFFSET L, v3),
         (kBaseEntropySrc L + ENTROPY_SRC_ALERT_THRESHOLD_REG_OFFSET L, v),
         (kBaseEntropySrc L + ENTROPY_SRC_MODULE_ENABLE_REG_OFFSET L, kMultiBitBool4True L)]
      \<and> bitfield_field32_read v (ENTROPY_SRC_ALERT_THRESHOLD_ALERT_THRESHOLD_FIELD L) =
          ucast (alert_threshold config)
            AND mask_field (ENTROPY_SRC_ALERT_THRESHOLD_ALERT_THRESHOLD_FIELD L)
      \<and> bitfield_field32_read v (ENTROPY_SRC_ALERT_THRESHOLD_ALERT_THRESHOLD_INV_FIELD L) =
          NOT (bitfield_field32_read v (ENTROPY_SRC_ALERT_THRESHOLD_ALERT_THRESHOLD_FIELD L))
            AND mask_field (ENTROPY_SRC_ALERT_THRESHOLD_ALERT_THRESHOLD_INV_FIELD L)"
proof -
  let ?T = "ENTROPY_SRC_ALERT_THRESHOLD_ALERT_THRESHOLD_FIELD L"
  let ?I = "ENTROPY_SRC_ALERT_THRESHOLD_ALERT_THRESHOLD_INV_FIELD L"
  let ?t = "ucast (alert_threshold config) :: uint32_t"
  let ?v = "bitfield_field32_write (bitfield_field32_write 0 ?T ?t) ?I (NOT ?t)"
  have T: "bitfield_field32_read ?v ?T = ?t AND mask_field ?T"
    using field_read_write_other [OF assms(2) assms(3), of "bitfield_field32_write 0 ?T ?t" "NOT ?t"]
      field_read_write_same [OF assms(3), of 0 ?t]
    by simp
  have I: "bitfield_field32_read ?v ?I = NOT ?t AND mask_field ?I"
    by (rule field_read_write_same [OF assms(4)])
  have "NOT ?t AND mask_field ?I = NOT (?t AND mask_field ?T) AND mask_field ?I"
    using assms(1) by (auto simp add: bit_eq_iff bit_simps)
  with T I have rel: "bitfield_field32_read ?v ?I =
      NOT (bitfield_field32_read ?v ?T) AND mask_field ?I"
    by simp
  have "writes_of (trace (snd (entropy_src_configure L config s))) =
        writes_of (trace s) @
        [(kBaseEntropySrc L + ENTROPY_SRC_ENTROPY_CONTROL_REG_OFFSET L,
          bitfield_field32_write
              (bitfield_field32_write 0 (ENTROPY_SRC_ENTROPY_CONTROL_ES_ROUTE_FIELD L)
                 (route_to_firmware config))
              (ENTROPY_SRC_ENTROPY_CONTROL_ES_TYPE_FIELD L) (bypass_conditioner config)),
         (kBaseEntropySrc L + ENTROPY_SRC_CONF_REG_OFFSET L,
          bitfield_field32_write
              (bitfield_field32_write
                 (bitfield_field32_write
                    (bitfield_field32_write
                       (bitfield_field32_write 0 (ENTROPY_SRC_CONF_FIPS_ENABLE_FIELD L)
                          (fips_enable config))
                       (ENTROPY_SRC_CONF_ENTROPY_DATA_REG_ENABLE_FIELD L)
                       (route_to_firmware config))
                    (ENTROPY_SRC_CONF_THRESHOLD_SCOPE_FIELD L) (kMultiBitBool4False L))
                 (ENTROPY_SRC_CONF_RNG_BIT_ENABLE_FIELD L) (single_bit_mode config))
              (ENTROPY_SRC_CONF_RNG_BIT_SEL_FIELD L) 0),
         (kBaseEntropySrc L + ENTROPY_SRC_HEALTH_TEST_WINDOWS_REG_OFFSET L,
          bitfield_field32_write (ENTROPY_SRC_HEALTH_TEST_WINDOWS_REG_RESVAL L)
              (ENTROPY_SRC_HEALTH_TEST_WINDOWS_FIPS_WINDOW_FIELD L)
              (ucast (fips_test_window_size config))),
         (kBaseEntropySrc L + ENTROPY_SRC_ALERT_THRESHOLD_REG_OFFSET L, ?v),
         (kBaseEntropySrc L + ENTROPY_SRC_MODULE_ENABLE_REG_OFFSET L, kMultiBitBool4True L)]"
    by (simp add: entropy_src_configure_run)
  with T rel show ?thesis by blast
qed

theorem alert_threshold_inverse_witness:
  "mask_field (ENTROPY_SRC_ALERT_THRESHOLD_ALERT_THRESHOLD_INV_FIELD example_layout) =
      mask_field (ENTROPY_SRC_ALERT_THRESHOLD_ALERT_THRESHOLD_FIELD example_layout)
   \<and> push_bit (index_field (ENTROPY_SRC_ALERT_THRESHOLD_ALERT_THRESHOLD_FIELD example_layout))
           (mask_field (ENTROPY_SRC_ALERT_THRESHOLD_ALERT_THRESHOLD_FIELD example_layout))
         AND push_bit
           (index_field (ENTROPY_SRC_ALERT_THRESHOLD_ALERT_THRESHOLD_INV_FIELD example_layout))
           (mask_field (ENTROPY_SRC_ALERT_THRESHOLD_ALERT_THRESHOLD_INV_FIELD example_layout)) = 0
   \<and> (\<exists>v1 v2 v3 v.
      writes_of (trace (snd (entropy_src_configure example_layout
         ((hd (kEntropyComplexConfigs example_layout))\<lparr>alert_threshold := 0\<rparr>) example_hw))) =
        [(0x41160028, v1), (0x41160024, v2), (0x41160030, v3), (0x411600a8, v), (0x41160020, 6)]
      \<and> bitfield_field32_read v \<lparr>mask_field = 0xffff, index_field = 0\<rparr> = 0
      \<and> bitfield_field32_read v \<lparr>mask_field = 0xffff, index_field = 16\<rparr> = 0xffff)"
proof -
  let ?cfg = "(hd (kEntropyComplexConfigs example_layout))\<lparr>alert_threshold := 0\<rparr>"
  have sel:
    "ENTROPY_SRC_ALERT_THRESHOLD_ALERT_THRESHOLD_FIELD example_layout =
       \<lparr>mask_field = 0xffff, index_field = 0\<rparr>"
    "ENTROPY_SRC_ALERT_THRESHOLD_ALERT_THRESHOLD_INV_FIELD example_layout =
       \<lparr>mask_field = 0xffff, index_field = 16\<rparr>"
    "kBaseEntropySrc example_layout + ENTROPY_SRC_ENTROPY_CONTROL_REG_OFFSET example_layout
       = 0x41160028"
    "kBaseEntropySrc example_layout + ENTROPY_SRC_CONF_REG_OFFSET example_layout = 0x41160024"
    "kBaseEntropySrc example_layout + ENTROPY_SRC_HEALTH_TEST_WINDOWS_REG_OFFSET example_layout
       = 0x41160030"
    "kBaseEntropySrc example_layout + ENTROPY_SRC_ALERT_THRESHOLD_REG_OFFSET example_layout
       = 0x411600a8"
    "kBaseEntropySrc example_layout + ENTROPY_SRC_MODULE_ENABLE_REG_OFFSET example_layout
       = 0x41160020"
    "kMultiBitBool4True example_layout = 6"
    by (simp_all add: example_layout_def)
  have h: "mask_field (ENTROPY_SRC_ALERT_THRESHOLD_ALERT_THRESHOLD_INV_FIELD example_layout) =
      mask_field (ENTROPY_SRC_ALERT_THRESHOLD_ALERT_THRESHOLD_FIELD example_layout)"
    "push_bit (index_field (ENTROPY_SRC_ALERT_THRESHOLD_ALERT_THRESHOLD_FIELD example_layout))
           (mask_field (ENTROPY_SRC_ALERT_THRESHOLD_ALERT_THRESHOLD_FIELD example_layout))
         AND push_bit
           (index_field (ENTROPY_SRC_ALERT_THRESHOLD_ALERT_THRESHOLD_INV_FIELD example_layout))
           (mask_field (ENTROPY_SRC_ALERT_THRESHOLD_ALERT_THRESHOLD_INV_FIELD example_layout)) = 0"
    "drop_bit (index_field (ENTROPY_SRC_ALERT_THRESHOLD_ALERT_THRESHOLD_FIELD example_layout))
           (push_bit (index_field (ENTROPY_SRC_ALERT_THRESHOLD_ALERT_THRESHOLD_FIELD example_layout))
              (mask_field (ENTROPY_SRC_ALERT_THRESHOLD_ALERT_THRESHOLD_FIELD example_layout)))
         = mask_field (ENTROPY_SRC_ALERT_THRESHOLD_ALERT_THRESHOLD_FIELD example_layout)"
    "drop_bit (index_field (ENTROPY_SRC_ALERT_THRESHOLD_ALERT_THRESHOLD_INV_FIELD example_layout))
           (push_bit (index_field (ENTROPY_SRC_ALERT_THRESHOLD_ALERT_THRESHOLD_INV_FIELD example_layout))
              (mask_field (ENTROPY_SRC_ALERT_THRESHOLD_ALERT_THRESHOLD_INV_FIELD example_layout)))
         = mask_field (ENTROPY_SRC_ALERT_THRESHOLD_ALERT_THRESHOLD_INV_FIELD example_layout)"
    by (simp_all add: sel)
  from alert_threshold_inverse [OF h, of ?cfg example_hw]
  obtain v1 v2 v3 v where
    w: "writes_of (trace (snd (entropy_src_configure example_layout ?cfg example_hw))) =
        [(0x41160028, v1), (0x41160024, v2), (0x41160030, v3), (0x411600a8, v), (0x41160020, 6)]"
    and t: "bitfield_field32_read v \<lparr>mask_field = 0xffff, index_field = 0\<rparr> = 0"
    and i: "bitfield_field32_read v \<lparr>mask_field = 0xffff, index_field = 16\<rparr> =
        NOT (bitfield_field32_read v \<lparr>mask_field = 0xffff, index_field = 0\<rparr>) AND 0xffff"
    by (auto simp add: sel example_hw_def)
  from i t have "bitfield_field32_read v \<lparr>mask_field = 0xffff, index_field = 16\<rparr> = 0xffff"
    by simp
  with w t h(1,2) show ?thesis by blast
qed

subsection \<open>Command submission\<close>

lemma mask_consts:
  "(3 :: uint32_t) = mask 2" "(0xf :: uint32_t) = mask 4" "(0x7ffff :: uint32_t) = mask 19"
  by (simp_all add: mask_eq_exp_minus_1)

lemma misalignment32_of_iff: "misalignment32_of a = 0 \<longleftrightarrow> 4 dvd unat a"
  using and_mask_dvd_nat [of 2 a] by (simp add: misalignment32_of_def mask_consts)

lemma cmd_len_overflow_iff:
  fixes x :: uint32_t
  shows "x AND NOT 0xf = 0 \<longleftrightarrow> x \<le> 15"
proof -
  have "x AND NOT (mask 4) = 0 \<longleftrightarrow> x AND mask 4 = x"
    by (auto simp add: bit_eq_iff bit_simps)
  also have "\<dots> \<longleftrightarrow> uint x < 2 ^ 4"
    by (rule mask_eq_iff)
  also have "\<dots> \<longleftrightarrow> x \<le> 15"
    by (auto simp add: word_le_def)
  finally show ?thesis by (simp add: mask_consts)
qed

lemma cmd_rejected_iff:
  "cmd_rejected cmd \<longleftrightarrow>
     (\<exists>sm. seed_material cmd = Some sm \<and> (15 < len sm \<or> \<not> 4 dvd unat (data_addr sm)))"
proof -
  have a: "cmd_len_of cmd AND NOT (mask_field kAppCmdFieldCmdLen) \<noteq> 0 \<longleftrightarrow> 15 < cmd_len_of cmd"
    using cmd_len_overflow_iff [of "cmd_len_of cmd"]
    by (simp add: kAppCmdFieldCmdLen_def not_le)
  show ?thesis
    unfolding cmd_rejected_def a
    by (cases "seed_material cmd") (simp_all add: cmd_len_of_def misalignment32_of_iff)
qed

lemma header_id:
  "app_cmd_header L cmd l AND 0xf = entropy_csrng_op_value (id_cmd cmd)"
proof -
  have "app_cmd_header L cmd l AND 0xf = entropy_csrng_op_value (id_cmd cmd) AND 0xf"
    unfolding app_cmd_header_def bitfield_field32_write_def Let_def
      kAppCmdFieldCmdLen_def kAppCmdFieldCmdId_def kAppCmdFieldGlen_def kAppCmdFieldFlag0_def
    by (auto simp add: mask_consts bit_eq_iff bit_simps)
  also have "\<dots> = entropy_csrng_op_value (id_cmd cmd)"
    by (cases "id_cmd cmd") simp_all
  finally show ?thesis .
qed

lemma header_len: "drop_bit 4 (app_cmd_header L cmd l) AND 0xf = l AND 0xf"
  unfolding app_cmd_header_def bitfield_field32_write_def Let_def
    kAppCmdFieldCmdLen_def kAppCmdFieldCmdId_def kAppCmdFieldGlen_def kAppCmdFieldFlag0_def
  by (auto simp add: mask_consts bit_eq_iff bit_simps)

lemma header_flag0:
  "drop_bit 8 (app_cmd_header L cmd l) AND 0xf =
     (if disable_trng_input cmd = kHardenedBoolTrue L then kMultiBitBool4True L AND 0xf else 0)"
  unfolding app_cmd_header_def bitfield_field32_write_def Let_def launder32_def
    kAppCmdFieldCmdLen_def kAppCmdFieldCmdId_def kAppCmdFieldGlen_def kAppCmdFieldFlag0_def
  by (auto simp add: mask_consts bit_eq_iff bit_simps)

lemma header_glen:
  "drop_bit 12 (app_cmd_header L cmd l) AND 0x7ffff = generate_len cmd AND 0x7ffff"
  unfolding app_cmd_header_def bitfield_field32_write_def Let_def
    kAppCmdFieldCmdLen_def kAppCmdFieldCmdId_def kAppCmdFieldGlen_def kAppCmdFieldFlag0_def
  by (auto simp add: mask_consts bit_eq_iff bit_simps)

lemma and_mask_fits:
  fixes x :: uint32_t
  shows "x \<le> 15 \<Longrightarrow> x AND 0xf = x" and "x < 2 ^ 19 \<Longrightarrow> x AND 0x7ffff = x"
proof -
  assume "x \<le> 15"
  then have "x < 2 ^ 4"
    by (simp add: word_le_nat_alt word_less_nat_alt)
  then have "x AND mask 4 = x"
    by (rule less_mask_eq)
  then show "x AND 0xf = x"
    by (simp add: mask_eq_exp_minus_1)
next
  assume "x < 2 ^ 19"
  then have "x AND mask 19 = x"
    by (rule less_mask_eq)
  then show "x AND 0x7ffff = x"
    by (simp add: mask_eq_exp_minus_1)
qed

lemma poll_bit32_writes_eq:
  assumes "poll_bit32 n a b s = (r, s')"
  shows "writes_of (trace s') = writes_of (trace s)"
  using poll_bit32_state(2) [OF assms] by auto

lemma write_seed_material_run:
  "write_seed_material ra words cmd_len i s =
     (Some (), s\<lparr>trace := trace s @ map (\<lambda>k. Write32 ra (words k)) [unat i..<unat cmd_len]\<rparr>)"
proof (induction ra words cmd_len i arbitrary: s rule: write_seed_material.induct)
  case (1 ra words cmd_len i)
  show ?case
  proof (cases "i < cmd_len")
    case True
    then have lt: "unat i < unat cmd_len"
      by (simp add: word_less_nat_alt)
    have "write_seed_material ra words cmd_len i s =
        write_seed_material ra words cmd_len (i + 1)
          (s\<lparr>trace := trace s @ [Write32 ra (words (unat i))]\<rparr>)"
      using True
      by (subst write_seed_material.simps) (simp add: seq_def abs_mmio_write32_def)
    also have "\<dots> = (Some (), s\<lparr>trace := (trace s @ [Write32 ra (words (unat i))])
        @ map (\<lambda>k. Write32 ra (words k)) [Suc (unat i)..<unat cmd_len]\<rparr>)"
      using "1.IH" [OF True] True by (simp add: unat_Suc_less)
    finally show ?thesis
      using lt by (simp add: upt_conv_Cons)
  next
    case False
    then have "unat cmd_len \<le> unat i"
      by (simp add: word_less_nat_alt)
    with False show ?thesis
      by (subst write_seed_material.simps) (simp add: ret_def)
  qed
qed

lemma csrng_send_app_cmd_run:
  "csrng_send_app_cmd n L reg_address cmd s =
     (case poll_bit32 n (kBaseCsrng L + CSRNG_SW_CMD_STS_REG_OFFSET L)
             (CSRNG_SW_CMD_STS_CMD_RDY_BIT L) s of
        (None, s1) \<Rightarrow> (None, s1)
      | (Some v, s1) \<Rightarrow>
          if cmd_rejected cmd then (Some INTERNAL, s1)
          else (case poll_bit32 n (kBaseCsrng L + CSRNG_INTR_STATE_REG_OFFSET L)
                       (CSRNG_INTR_STATE_CS_CMD_REQ_DONE_BIT L)
                       (s1\<lparr>trace := trace s1 @ cmd_events L reg_address cmd\<rparr>) of
                  (None, s3) \<Rightarrow> (None, s3)
                | (Some v', s3) \<Rightarrow>
                    (let reg = dev s3 (trace s3) (kBaseCsrng L + CSRNG_SW_CMD_STS_REG_OFFSET L)
                     in (Some (if bitfield_bit32_read reg (CSRNG_SW_CMD_STS_CMD_STS_BIT L)
                               then INTERNAL else OK_STATUS),
                         s3\<lparr>trace := trace s3 @
                           [Read32 (kBaseCsrng L + CSRNG_SW_CMD_STS_REG_OFFSET L) reg]\<rparr>))))"
  by (auto simp: csrng_send_app_cmd_def seq_def ret_def Let_def cmd_rejected_def cmd_events_def
      abs_mmio_write32_def abs_mmio_read32_def write_seed_material_run
      split: prod.splits option.splits)

lemma csrng_send_app_cmd_writes:
  "writes_of (trace (snd (csrng_send_app_cmd n L reg_address cmd s))) =
     writes_of (trace s) @
     (if fst (poll_bit32 n (kBaseCsrng L + CSRNG_SW_CMD_STS_REG_OFFSET L)
                (CSRNG_SW_CMD_STS_CMD_RDY_BIT L) s) = None \<or> cmd_rejected cmd
      then [] else writes_of (cmd_events L reg_address cmd))"
proof -
  let ?p1 = "poll_bit32 n (kBaseCsrng L + CSRNG_SW_CMD_STS_REG_OFFSET L)
      (CSRNG_SW_CMD_STS_CMD_RDY_BIT L) s"
  obtain r1 s1 where p1: "?p1 = (r1, s1)" by (cases ?p1)
  have w1: "writes_of (trace s1) = writes_of (trace s)"
    by (rule poll_bit32_writes_eq [OF p1])
  let ?s2 = "s1\<lparr>trace := trace s1 @ cmd_events L reg_address cmd\<rparr>"
  let ?p2 = "poll_bit32 n (kBaseCsrng L + CSRNG_INTR_STATE_REG_OFFSET L)
      (CSRNG_INTR_STATE_CS_CMD_REQ_DONE_BIT L) ?s2"
  obtain r2 s3 where p2: "?p2 = (r2, s3)" by (cases ?p2)
  have w3: "writes_of (trace s3) = writes_of (trace s) @ writes_of (cmd_events L reg_address cmd)"
    using poll_bit32_writes_eq [OF p2] w1 by simp
  show ?thesis
    using p1 p2 w1 w3
    by (simp add: csrng_send_app_cmd_run Let_def split: option.splits)
qed

lemma csrng_send_app_cmd_rejected:
  assumes "cmd_rejected cmd"
  shows "fst (csrng_send_app_cmd n L reg_address cmd s) =
     (if fst (poll_bit32 n (kBaseCsrng L + CSRNG_SW_CMD_STS_REG_OFFSET L)
                (CSRNG_SW_CMD_STS_CMD_RDY_BIT L) s) = None
      then None else Some INTERNAL)"
  using assms
  by (simp add: csrng_send_app_cmd_run split: prod.splits option.splits)

lemma writes_of_cmd_events:
  "writes_of (cmd_events L reg_address cmd) =
     (kBaseCsrng L + CSRNG_INTR_STATE_REG_OFFSET L,
      bitfield_bit32_write 0 (CSRNG_INTR_STATE_CS_CMD_REQ_DONE_BIT L) True)
     # (reg_address, app_cmd_header L cmd (cmd_len_of cmd))
     # map (\<lambda>k. (reg_address,
                (case seed_material cmd of None \<Rightarrow> (\<lambda>i. 0) | Some sm \<Rightarrow> data sm) k))
         [0..<unat (cmd_len_of cmd)]"
  by (simp add: cmd_events_def)

text \<open>
  C4. A command whose seed material has more than 15 words, or whose seed material array is
  not at a multiple of 4 bytes, makes \<open>csrng_send_app_cmd\<close> return the internal error
  as soon as its wait for "command ready" ends, and no register is written: the accesses
  of the call are the reads of that wait.
\<close>

theorem send_app_cmd_rejects_before_writing:
  assumes "seed_material cmd = Some sm"
    and "15 < len sm \<or> \<not> 4 dvd unat (data_addr sm)"
  shows "writes_of (trace (snd (csrng_send_app_cmd n L reg_address cmd s))) = writes_of (trace s)
    \<and> fst (csrng_send_app_cmd n L reg_address cmd s) =
        (if fst (poll_bit32 n (kBaseCsrng L + CSRNG_SW_CMD_STS_REG_OFFSET L)
                   (CSRNG_SW_CMD_STS_CMD_RDY_BIT L) s) = None
         then None else Some INTERNAL)"
proof -
  from assms have "cmd_rejected cmd"
    by (simp add: cmd_rejected_iff)
  then show ?thesis
    by (simp add: csrng_send_app_cmd_writes csrng_send_app_cmd_rejected)
qed

theorem send_app_cmd_rejects_before_writing_witness:
  "(15 :: uint32_t) < 16
   \<and> fst (csrng_send_app_cmd 1 example_layout 0x41150018
       \<lparr>id_cmd = kEntropyDrbgOpInstantiate, disable_trng_input = 0x1d4,
        seed_material = Some \<lparr>len = 16, data_addr = 0x10000000, data = (\<lambda>i. 0)\<rparr>,
        generate_len = 0\<rparr> example_hw) = Some INTERNAL
   \<and> trace (snd (csrng_send_app_cmd 1 example_layout 0x41150018
       \<lparr>id_cmd = kEntropyDrbgOpInstantiate, disable_trng_input = 0x1d4,
        seed_material = Some \<lparr>len = 16, data_addr = 0x10000000, data = (\<lambda>i. 0)\<rparr>,
        generate_len = 0\<rparr> example_hw)) = [Read32 0x4115001c 1]
   \<and> \<not> 4 dvd unat (0x10000002 :: uint32_t)
   \<and> fst (csrng_send_app_cmd 1 example_layout 0x41150018
       \<lparr>id_cmd = kEntropyDrbgOpInstantiate, disable_trng_input = 0x1d4,
        seed_material = Some \<lparr>len = 4, data_addr = 0x10000002, data = (\<lambda>i. 0)\<rparr>,
        generate_len = 0\<rparr> example_hw) = Some INTERNAL
   \<and> writes_of (trace (snd (csrng_send_app_cmd 1 example_layout 0x41150018
       \<lparr>id_cmd = kEntropyDrbgOpInstantiate, disable_trng_input = 0x1d4,
        seed_material = Some \<lparr>len = 4, data_addr = 0x10000002, data = (\<lambda>i. 0)\<rparr>,
        generate_len = 0\<rparr> example_hw))) = []"
proof -
  let ?sm = "\<lparr>len = 4, data_addr = 0x10000002, data = (\<lambda>i. 0 :: uint32_t)\<rparr>"
  let ?cmd = "\<lparr>id_cmd = kEntropyDrbgOpInstantiate, disable_trng_input = 0x1d4,
        seed_material = Some ?sm, generate_len = 0\<rparr>"
  have a: "\<not> 4 dvd unat (0x10000002 :: uint32_t)" by simp
  have b: "seed_material ?cmd = Some ?sm" by simp
  have c: "15 < len ?sm \<or> \<not> 4 dvd unat (data_addr ?sm)" by simp
  have d: "fst (csrng_send_app_cmd 1 example_layout 0x41150018
       \<lparr>id_cmd = kEntropyDrbgOpInstantiate, disable_trng_input = 0x1d4,
        seed_material = Some \<lparr>len = 16, data_addr = 0x10000000, data = (\<lambda>i. 0)\<rparr>,
        generate_len = 0\<rparr> example_hw) = Some INTERNAL"
    "trace (snd (csrng_send_app_cmd 1 example_layout 0x41150018
       \<lparr>id_cmd = kEntropyDrbgOpInstantiate, disable_trng_input = 0x1d4,
        seed_material = Some \<lparr>len = 16, data_addr = 0x10000000, data = (\<lambda>i. 0)\<rparr>,
        generate_len = 0\<rparr> example_hw)) = [Read32 0x4115001c 1]"
    by (simp_all add: run_simps)
  have e: "fst (poll_bit32 1 (kBaseCsrng example_layout + CSRNG_SW_CMD_STS_REG_OFFSET example_layout)
      (CSRNG_SW_CMD_STS_CMD_RDY_BIT example_layout) example_hw) \<noteq> None"
    "trace example_hw = []"
    by (simp_all add: run_simps)
  from send_app_cmd_rejects_before_writing [OF b c, of 1 example_layout "0x41150018" example_hw]
  show ?thesis
    using a d e by simp
qed


lemma csrng_send_app_cmd_accepted_writes:
  assumes "\<not> cmd_rejected cmd"
    and "fst (poll_bit32 n (kBaseCsrng L + CSRNG_SW_CMD_STS_REG_OFFSET L)
               (CSRNG_SW_CMD_STS_CMD_RDY_BIT L) s) \<noteq> None"
  shows "writes_of (trace (snd (csrng_send_app_cmd n L reg_address cmd s))) =
     writes_of (trace s) @
     (kBaseCsrng L + CSRNG_INTR_STATE_REG_OFFSET L,
      bitfield_bit32_write 0 (CSRNG_INTR_STATE_CS_CMD_REQ_DONE_BIT L) True)
     # (reg_address, app_cmd_header L cmd (cmd_len_of cmd))
     # map (\<lambda>k. (reg_address,
                (case seed_material cmd of None \<Rightarrow> (\<lambda>i. 0) | Some sm \<Rightarrow> data sm) k))
         [0..<unat (cmd_len_of cmd)]"
  using assms by (simp add: csrng_send_app_cmd_writes writes_of_cmd_events)

text \<open>
  C3, as the code has it. For a command with at most 15 seed material words and a seed
  material array at a multiple of 4 bytes, once the wait for "command ready" has ended the
  routine writes the completion flag and then the header, in which bits 3:0 are the opcode,
  bits 7:4 the word count, bits 11:8 the encoded true exactly when \<open>disable_trng_input\<close> is
  the hardened true, and bits 30:12 the low 19 bits of the generate length: the generate
  length itself when it is below \<open>2 ^ 19\<close>. The encoded true is taken to be a 4-bit
  pattern other than 0.
\<close>

theorem app_cmd_header_encoding:
  assumes "cmd_len_of cmd \<le> 15"
    and "\<And>sm. seed_material cmd = Some sm \<Longrightarrow> 4 dvd unat (data_addr sm)"
    and "fst (poll_bit32 n (kBaseCsrng L + CSRNG_SW_CMD_STS_REG_OFFSET L)
               (CSRNG_SW_CMD_STS_CMD_RDY_BIT L) s) \<noteq> None"
    and "kMultiBitBool4True L \<le> 15" and "kMultiBitBool4True L \<noteq> 0"
  shows "\<exists>hdr ws.
      writes_of (trace (snd (csrng_send_app_cmd n L reg_address cmd s))) =
        writes_of (trace s) @
        (kBaseCsrng L + CSRNG_INTR_STATE_REG_OFFSET L,
         bitfield_bit32_write 0 (CSRNG_INTR_STATE_CS_CMD_REQ_DONE_BIT L) True)
        # (reg_address, hdr) # ws
      \<and> hdr AND 0xf = entropy_csrng_op_value (id_cmd cmd)
      \<and> drop_bit 4 hdr AND 0xf = cmd_len_of cmd
      \<and> (drop_bit 8 hdr AND 0xf = kMultiBitBool4True L
           \<longleftrightarrow> disable_trng_input cmd = kHardenedBoolTrue L)
      \<and> drop_bit 12 hdr AND 0x7ffff = generate_len cmd AND 0x7ffff
      \<and> (generate_len cmd < 2 ^ 19 \<longrightarrow> drop_bit 12 hdr AND 0x7ffff = generate_len cmd)"
proof -
  let ?hdr = "app_cmd_header L cmd (cmd_len_of cmd)"
  have "\<not> cmd_rejected cmd"
    using assms(1,2) by (auto simp add: cmd_rejected_iff cmd_len_of_def not_less)
  note w = csrng_send_app_cmd_accepted_writes [OF this assms(3), of reg_address]
  have l: "drop_bit 4 ?hdr AND 0xf = cmd_len_of cmd"
    using assms(1) by (simp add: header_len and_mask_fits(1))
  have f: "drop_bit 8 ?hdr AND 0xf = kMultiBitBool4True L
      \<longleftrightarrow> disable_trng_input cmd = kHardenedBoolTrue L"
    using assms(4,5) by (auto simp add: header_flag0 and_mask_fits(1))
  have g: "generate_len cmd < 2 ^ 19 \<longrightarrow> drop_bit 12 ?hdr AND 0x7ffff = generate_len cmd"
    by (simp add: header_glen and_mask_fits(2))
  from w l f g header_id [of L cmd "cmd_len_of cmd"] header_glen [of L cmd "cmd_len_of cmd"]
  show ?thesis by blast
qed

text \<open>
  C3, as the claim has it, fails for a generate length of \<open>2 ^ 19\<close> blocks or more: the
  header written for \<open>0x80000\<close> blocks is 3, whose bits 30:12 are 0.
\<close>

theorem app_cmd_header_glen_counterexample:
  "writes_of (trace (snd (csrng_send_app_cmd 1 example_layout 0x41150018
      \<lparr>id_cmd = kEntropyDrbgOpGenerate, disable_trng_input = 0, seed_material = None,
       generate_len = 0x80000\<rparr> example_hw))) = [(0x41150000, 1), (0x41150018, 3)]
   \<and> drop_bit 12 (3 :: uint32_t) AND 0x7ffff \<noteq> 0x80000"
  by (simp add: run_simps)

theorem app_cmd_header_encoding_witness:
  "cmd_len_of \<lparr>id_cmd = kEntropyDrbgOpInstantiate, disable_trng_input = 0x739,
       seed_material = Some \<lparr>len = 2, data_addr = 0x10000000, data = of_nat\<rparr>,
       generate_len = 0\<rparr> \<le> 15
   \<and> 4 dvd unat (0x10000000 :: uint32_t)
   \<and> kMultiBitBool4True example_layout \<le> 15 \<and> kMultiBitBool4True example_layout \<noteq> 0
   \<and> (\<exists>hdr ws. writes_of (trace (snd (csrng_send_app_cmd 1 example_layout 0x41150018
         \<lparr>id_cmd = kEntropyDrbgOpInstantiate, disable_trng_input = 0x739,
          seed_material = Some \<lparr>len = 2, data_addr = 0x10000000, data = of_nat\<rparr>,
          generate_len = 0\<rparr> example_hw))) = (0x41150000, 1) # (0x41150018, hdr) # ws
        \<and> hdr AND 0xf = 1 \<and> drop_bit 4 hdr AND 0xf = 2 \<and> drop_bit 8 hdr AND 0xf = 6
        \<and> drop_bit 12 hdr AND 0x7ffff = 0)"
proof -
  let ?sm = "\<lparr>len = 2, data_addr = 0x10000000, data = (of_nat :: nat \<Rightarrow> uint32_t)\<rparr>"
  let ?cmd = "\<lparr>id_cmd = kEntropyDrbgOpInstantiate, disable_trng_input = 0x739,
       seed_material = Some ?sm, generate_len = 0\<rparr>"
  have a: "cmd_len_of ?cmd \<le> 15"
    by (simp add: cmd_len_of_def)
  have b: "\<And>sm. seed_material ?cmd = Some sm \<Longrightarrow> 4 dvd unat (data_addr sm)"
    by auto
  have c: "fst (poll_bit32 1 (kBaseCsrng example_layout + CSRNG_SW_CMD_STS_REG_OFFSET example_layout)
      (CSRNG_SW_CMD_STS_CMD_RDY_BIT example_layout) example_hw) \<noteq> None"
    by (simp add: run_simps)
  have d: "kMultiBitBool4True example_layout \<le> 15" "kMultiBitBool4True example_layout \<noteq> 0"
    by (simp_all add: example_layout_simps)
  have e: "trace example_hw = []"
    "bitfield_bit32_write 0 0 True = 1"
    by (simp_all add: run_simps)
  from app_cmd_header_encoding [OF a b c d, of "0x41150018"]
  obtain hdr ws where
    "writes_of (trace (snd (csrng_send_app_cmd 1 example_layout 0x41150018 ?cmd example_hw))) =
       (0x41150000, 1) # (0x41150018, hdr) # ws"
    "hdr AND 0xf = 1" "drop_bit 4 hdr AND 0xf = 2" "drop_bit 8 hdr AND 0xf = 6"
    "drop_bit 12 hdr AND 0x7ffff = 0"
    by (auto simp add: e example_layout_simps cmd_len_of_def)
  with a d show ?thesis
    by (intro conjI exI) simp_all
qed

lemma csrng_send_app_cmd_error_is_status:
  assumes "\<not> cmd_rejected cmd"
    and "fst (csrng_send_app_cmd n L reg_address cmd s) = Some INTERNAL"
  shows "\<exists>t v. trace (snd (csrng_send_app_cmd n L reg_address cmd s)) =
      t @ [Read32 (kBaseCsrng L + CSRNG_SW_CMD_STS_REG_OFFSET L) v]
    \<and> bitfield_bit32_read v (CSRNG_SW_CMD_STS_CMD_STS_BIT L)"
  using assms
  by (auto simp add: csrng_send_app_cmd_run Let_def split: prod.splits option.splits if_splits)

text \<open>
  C8. A command with a null seed material has length 0: once the wait for "command ready"
  has ended, the routine writes the completion flag and the header and nothing else, the
  header's bits 7:4 are 0, and the only internal error it can return is the one read from
  the status bit after the command (the length and alignment checks do not reject it). The
  five public command functions, called with a null seed material, submit such a command
  to the command register of the CSRNG.
\<close>

theorem null_seed_material_accepted:
  assumes "seed_material cmd = None"
  shows "(\<exists>hdr. writes_of (trace (snd (csrng_send_app_cmd n L reg_address cmd s))) =
        writes_of (trace s) @
        (if fst (poll_bit32 n (kBaseCsrng L + CSRNG_SW_CMD_STS_REG_OFFSET L)
                   (CSRNG_SW_CMD_STS_CMD_RDY_BIT L) s) = None then []
         else [(kBaseCsrng L + CSRNG_INTR_STATE_REG_OFFSET L,
                bitfield_bit32_write 0 (CSRNG_INTR_STATE_CS_CMD_REQ_DONE_BIT L) True),
               (reg_address, hdr)])
      \<and> drop_bit 4 hdr AND 0xf = 0)
    \<and> (fst (csrng_send_app_cmd n L reg_address cmd s) = Some INTERNAL \<longrightarrow>
        (\<exists>t v. trace (snd (csrng_send_app_cmd n L reg_address cmd s)) =
            t @ [Read32 (kBaseCsrng L + CSRNG_SW_CMD_STS_REG_OFFSET L) v]
          \<and> bitfield_bit32_read v (CSRNG_SW_CMD_STS_CMD_STS_BIT L)))
    \<and> (\<forall>m \<in> set [entropy_csrng_instantiate n L d None, entropy_csrng_reseed n L d None,
          entropy_csrng_update n L None, entropy_csrng_generate_start n L None len_arg,
          entropy_csrng_uninstantiate n L].
        \<exists>c. m = csrng_send_app_cmd n L (kBaseCsrng L + CSRNG_CMD_REQ_REG_OFFSET L) c
          \<and> seed_material c = None)"
proof -
  from assms have nr: "\<not> cmd_rejected cmd"
    by (simp add: cmd_rejected_iff)
  from assms have l: "cmd_len_of cmd = 0"
    by (simp add: cmd_len_of_def)
  let ?hdr = "app_cmd_header L cmd 0"
  have "writes_of (trace (snd (csrng_send_app_cmd n L reg_address cmd s))) =
        writes_of (trace s) @
        (if fst (poll_bit32 n (kBaseCsrng L + CSRNG_SW_CMD_STS_REG_OFFSET L)
                   (CSRNG_SW_CMD_STS_CMD_RDY_BIT L) s) = None then []
         else [(kBaseCsrng L + CSRNG_INTR_STATE_REG_OFFSET L,
                bitfield_bit32_write 0 (CSRNG_INTR_STATE_CS_CMD_REQ_DONE_BIT L) True),
               (reg_address, ?hdr)])"
    using nr l by (simp add: csrng_send_app_cmd_writes writes_of_cmd_events)
  moreover have "drop_bit 4 ?hdr AND 0xf = 0"
    by (simp add: header_len)
  ultimately have 1: "\<exists>hdr. writes_of (trace (snd (csrng_send_app_cmd n L reg_address cmd s))) =
        writes_of (trace s) @
        (if fst (poll_bit32 n (kBaseCsrng L + CSRNG_SW_CMD_STS_REG_OFFSET L)
                   (CSRNG_SW_CMD_STS_CMD_RDY_BIT L) s) = None then []
         else [(kBaseCsrng L + CSRNG_INTR_STATE_REG_OFFSET L,
                bitfield_bit32_write 0 (CSRNG_INTR_STATE_CS_CMD_REQ_DONE_BIT L) True),
               (reg_address, hdr)])
      \<and> drop_bit 4 hdr AND 0xf = 0"
    by blast
  have 2: "fst (csrng_send_app_cmd n L reg_address cmd s) = Some INTERNAL \<longrightarrow>
        (\<exists>t v. trace (snd (csrng_send_app_cmd n L reg_address cmd s)) =
            t @ [Read32 (kBaseCsrng L + CSRNG_SW_CMD_STS_REG_OFFSET L) v]
          \<and> bitfield_bit32_read v (CSRNG_SW_CMD_STS_CMD_STS_BIT L))"
    using csrng_send_app_cmd_error_is_status [OF nr] by blast
  have 3: "\<forall>m \<in> set [entropy_csrng_instantiate n L d None, entropy_csrng_reseed n L d None,
          entropy_csrng_update n L None, entropy_csrng_generate_start n L None len_arg,
          entropy_csrng_uninstantiate n L].
        \<exists>c. m = csrng_send_app_cmd n L (kBaseCsrng L + CSRNG_CMD_REQ_REG_OFFSET L) c
          \<and> seed_material c = None"
    unfolding entropy_csrng_instantiate_def entropy_csrng_reseed_def entropy_csrng_update_def
      entropy_csrng_generate_start_def entropy_csrng_uninstantiate_def
    by (auto intro!: exI [where x = "\<lparr>id_cmd = _, disable_trng_input = _,
        seed_material = None, generate_len = _\<rparr>"])
  from 1 2 3 show ?thesis by blast
qed


theorem null_seed_material_accepted_witness:
  "seed_material \<lparr>id_cmd = kEntropyDrbgOpReseed, disable_trng_input = 0x1d4,
       seed_material = None, generate_len = 0\<rparr> = None
   \<and> (\<exists>hdr. writes_of (trace (snd (csrng_send_app_cmd 1 example_layout 0x41150018
         \<lparr>id_cmd = kEntropyDrbgOpReseed, disable_trng_input = 0x1d4,
          seed_material = None, generate_len = 0\<rparr> example_hw)))
        = [(0x41150000, 1), (0x41150018, hdr)] \<and> drop_bit 4 hdr AND 0xf = 0)
   \<and> fst (csrng_send_app_cmd 1 example_layout 0x41150018
         \<lparr>id_cmd = kEntropyDrbgOpReseed, disable_trng_input = 0x1d4,
          seed_material = None, generate_len = 0\<rparr> example_hw) = Some OK_STATUS
   \<and> fst (entropy_csrng_update 1 example_layout None example_hw) = Some OK_STATUS
   \<and> fst (entropy_csrng_uninstantiate 1 example_layout example_hw) = Some OK_STATUS"
proof -
  let ?cmd = "\<lparr>id_cmd = kEntropyDrbgOpReseed, disable_trng_input = 0x1d4,
       seed_material = None, generate_len = 0\<rparr>"
  have a: "seed_material ?cmd = None" by simp
  have c: "fst (poll_bit32 1 (kBaseCsrng example_layout + CSRNG_SW_CMD_STS_REG_OFFSET example_layout)
      (CSRNG_SW_CMD_STS_CMD_RDY_BIT example_layout) example_hw) = Some 1"
    by (simp add: run_simps)
  have e: "trace example_hw = []" "bitfield_bit32_write 0 0 True = 1"
    by (simp_all add: run_simps)
  have r: "fst (csrng_send_app_cmd 1 example_layout 0x41150018 ?cmd example_hw) = Some OK_STATUS"
    "fst (entropy_csrng_update 1 example_layout None example_hw) = Some OK_STATUS"
    "fst (entropy_csrng_uninstantiate 1 example_layout example_hw) = Some OK_STATUS"
    by (simp_all add: run_simps)
  from null_seed_material_accepted [OF a, of 1 example_layout "0x41150018" example_hw]
  have "\<exists>hdr. writes_of (trace (snd (csrng_send_app_cmd 1 example_layout 0x41150018 ?cmd
        example_hw))) = [(0x41150000, 1), (0x41150018, hdr)] \<and> drop_bit 4 hdr AND 0xf = 0"
    using c by (simp add: e example_layout_simps)
  with r show ?thesis by simp
qed

text \<open>
  C9. When \<open>disable_trng_input\<close> is any value other than the hardened true, the header
  that the routine writes has 0 in bits 11:8, which is not the encoded false. That holds
  for the value 0 of a field that an initializer leaves out, as in the commands of
  \<open>entropy_csrng_update\<close> and \<open>entropy_csrng_uninstantiate\<close> and in the generate command of
  edn1 in the configuration table. The hardened true is taken not to be 0, and the encoded
  false to have a bit set among its low four.
\<close>

theorem flag0_raw_zero:
  assumes "kHardenedBoolTrue L \<noteq> 0" and "kMultiBitBool4False L AND 0xf \<noteq> 0"
  shows "(disable_trng_input cmd \<noteq> kHardenedBoolTrue L \<longrightarrow>
      (\<exists>hdr ws. writes_of (trace (snd (csrng_send_app_cmd n L reg_address cmd s))) =
          writes_of (trace s) @
          (if fst (poll_bit32 n (kBaseCsrng L + CSRNG_SW_CMD_STS_REG_OFFSET L)
                     (CSRNG_SW_CMD_STS_CMD_RDY_BIT L) s) = None \<or> cmd_rejected cmd then []
           else (kBaseCsrng L + CSRNG_INTR_STATE_REG_OFFSET L,
                 bitfield_bit32_write 0 (CSRNG_INTR_STATE_CS_CMD_REQ_DONE_BIT L) True)
                # (reg_address, hdr) # ws)
        \<and> drop_bit 8 hdr AND 0xf = 0
        \<and> drop_bit 8 hdr AND 0xf \<noteq> kMultiBitBool4False L AND 0xf))
    \<and> disable_trng_input (generate (edn1 (hd (kEntropyComplexConfigs L)))) = 0
    \<and> disable_trng_input (generate (edn1 (hd (kEntropyComplexConfigs L)))) \<noteq> kHardenedBoolTrue L
    \<and> (\<forall>m \<in> set [entropy_csrng_update n L sm, entropy_csrng_uninstantiate n L].
        \<exists>c. m = csrng_send_app_cmd n L (kBaseCsrng L + CSRNG_CMD_REQ_REG_OFFSET L) c
          \<and> disable_trng_input c = 0 \<and> disable_trng_input c \<noteq> kHardenedBoolTrue L)"
proof -
  let ?hdr = "app_cmd_header L cmd (cmd_len_of cmd)"
  have 1: "disable_trng_input cmd \<noteq> kHardenedBoolTrue L \<longrightarrow>
      (\<exists>hdr ws. writes_of (trace (snd (csrng_send_app_cmd n L reg_address cmd s))) =
          writes_of (trace s) @
          (if fst (poll_bit32 n (kBaseCsrng L + CSRNG_SW_CMD_STS_REG_OFFSET L)
                     (CSRNG_SW_CMD_STS_CMD_RDY_BIT L) s) = None \<or> cmd_rejected cmd then []
           else (kBaseCsrng L + CSRNG_INTR_STATE_REG_OFFSET L,
                 bitfield_bit32_write 0 (CSRNG_INTR_STATE_CS_CMD_REQ_DONE_BIT L) True)
                # (reg_address, hdr) # ws)
        \<and> drop_bit 8 hdr AND 0xf = 0
        \<and> drop_bit 8 hdr AND 0xf \<noteq> kMultiBitBool4False L AND 0xf)"
  proof
    assume ne: "disable_trng_input cmd \<noteq> kHardenedBoolTrue L"
    then have z: "drop_bit 8 ?hdr AND 0xf = 0"
      by (simp add: header_flag0)
    with assms(2) have nz: "drop_bit 8 ?hdr AND 0xf \<noteq> kMultiBitBool4False L AND 0xf"
      by simp
    have "writes_of (trace (snd (csrng_send_app_cmd n L reg_address cmd s))) =
          writes_of (trace s) @
          (if fst (poll_bit32 n (kBaseCsrng L + CSRNG_SW_CMD_STS_REG_OFFSET L)
                     (CSRNG_SW_CMD_STS_CMD_RDY_BIT L) s) = None \<or> cmd_rejected cmd then []
           else (kBaseCsrng L + CSRNG_INTR_STATE_REG_OFFSET L,
                 bitfield_bit32_write 0 (CSRNG_INTR_STATE_CS_CMD_REQ_DONE_BIT L) True)
                # (reg_address, ?hdr)
                # map (\<lambda>k. (reg_address,
                     (case seed_material cmd of None \<Rightarrow> (\<lambda>i. 0) | Some sm \<Rightarrow> data sm) k))
                    [0..<unat (cmd_len_of cmd)])"
      by (simp add: csrng_send_app_cmd_writes writes_of_cmd_events)
    with z nz show "\<exists>hdr ws. writes_of (trace (snd (csrng_send_app_cmd n L reg_address cmd s))) =
          writes_of (trace s) @
          (if fst (poll_bit32 n (kBaseCsrng L + CSRNG_SW_CMD_STS_REG_OFFSET L)
                     (CSRNG_SW_CMD_STS_CMD_RDY_BIT L) s) = None \<or> cmd_rejected cmd then []
           else (kBaseCsrng L + CSRNG_INTR_STATE_REG_OFFSET L,
                 bitfield_bit32_write 0 (CSRNG_INTR_STATE_CS_CMD_REQ_DONE_BIT L) True)
                # (reg_address, hdr) # ws)
        \<and> drop_bit 8 hdr AND 0xf = 0
        \<and> drop_bit 8 hdr AND 0xf \<noteq> kMultiBitBool4False L AND 0xf"
      by blast
  qed
  have 2: "disable_trng_input (generate (edn1 (hd (kEntropyComplexConfigs L)))) = 0"
    by (simp add: kEntropyComplexConfigs_def)
  with assms(1) have 3:
    "disable_trng_input (generate (edn1 (hd (kEntropyComplexConfigs L)))) \<noteq> kHardenedBoolTrue L"
    by simp
  have 4: "\<forall>m \<in> set [entropy_csrng_update n L sm, entropy_csrng_uninstantiate n L].
        \<exists>c. m = csrng_send_app_cmd n L (kBaseCsrng L + CSRNG_CMD_REQ_REG_OFFSET L) c
          \<and> disable_trng_input c = 0 \<and> disable_trng_input c \<noteq> kHardenedBoolTrue L"
    unfolding entropy_csrng_update_def entropy_csrng_uninstantiate_def
    using assms(1)
    by (auto intro!: exI [where x = "\<lparr>id_cmd = _, disable_trng_input = 0,
        seed_material = _, generate_len = _\<rparr>"])
  from 1 2 3 4 show ?thesis by blast
qed

theorem flag0_raw_zero_witness:
  "kHardenedBoolTrue example_layout \<noteq> 0 \<and> kMultiBitBool4False example_layout AND 0xf \<noteq> 0
   \<and> (0x1d4 :: uint32_t) \<noteq> kHardenedBoolTrue example_layout
   \<and> (\<exists>hdr ws. writes_of (trace (snd (csrng_send_app_cmd 1 example_layout 0x41150018
         \<lparr>id_cmd = kEntropyDrbgOpReseed, disable_trng_input = 0x1d4,
          seed_material = None, generate_len = 0\<rparr> example_hw)))
        = (0x41150000, 1) # (0x41150018, hdr) # ws \<and> drop_bit 8 hdr AND 0xf = 0)
   \<and> writes_of (trace (snd (entropy_csrng_uninstantiate 1 example_layout example_hw)))
        = [(0x41150000, 1), (0x41150018, 4)]"
proof -
  let ?cmd = "\<lparr>id_cmd = kEntropyDrbgOpReseed, disable_trng_input = 0x1d4,
       seed_material = None, generate_len = 0\<rparr>"
  have a: "kHardenedBoolTrue example_layout \<noteq> 0"
    "kMultiBitBool4False example_layout AND 0xf \<noteq> 0"
    "(0x1d4 :: uint32_t) \<noteq> kHardenedBoolTrue example_layout"
    by (simp_all add: example_layout_simps)
  have c: "fst (poll_bit32 1 (kBaseCsrng example_layout + CSRNG_SW_CMD_STS_REG_OFFSET example_layout)
      (CSRNG_SW_CMD_STS_CMD_RDY_BIT example_layout) example_hw) = Some 1"
    "\<not> cmd_rejected ?cmd"
    by (simp_all add: run_simps)
  have e: "trace example_hw = []" "bitfield_bit32_write 0 0 True = 1"
    "writes_of (trace (snd (entropy_csrng_uninstantiate 1 example_layout example_hw)))
        = [(0x41150000, 1), (0x41150018, 4)]"
    by (simp_all add: run_simps)
  from flag0_raw_zero [OF a(1,2), of ?cmd 1 "0x41150018" example_hw]
  have "\<exists>hdr ws. writes_of (trace (snd (csrng_send_app_cmd 1 example_layout 0x41150018 ?cmd
        example_hw))) = (0x41150000, 1) # (0x41150018, hdr) # ws \<and> drop_bit 8 hdr AND 0xf = 0"
    using a(3) c by (simp add: e(1,2) example_layout_simps) blast
  with a e(3) show ?thesis by simp
qed

subsection \<open>Generating\<close>

lemma writes_of_reads_only:
  "list_all (is_read_of as) es \<Longrightarrow> writes_of es = []"
  by (induction es rule: writes_of.induct) simp_all

lemma blocks_mod:
  fixes u :: nat
  assumes "u < 2 ^ 32"
  shows "((u + 3) mod 2 ^ 32 div 4) mod 2 ^ 19 = ((u + 3) div 4) mod 2 ^ 19"
proof (cases "u + 3 < 2 ^ 32")
  case True
  then show ?thesis by simp
next
  case False
  with assms have "u = 4294967293 \<or> u = 4294967294 \<or> u = 4294967295"
    by auto
  then show ?thesis
    by auto
qed

lemma num_128bit_blocks_field:
  "unat (num_128bit_blocks len_arg AND 0x7ffff) = ((unat len_arg + 3) div 4) mod 2 ^ 19"
proof -
  have "unat (num_128bit_blocks len_arg AND mask 19) = unat (num_128bit_blocks len_arg) mod 2 ^ 19"
  proof -
    have "unat (take_bit 19 (num_128bit_blocks len_arg)) =
        take_bit 19 (unat (num_128bit_blocks len_arg))"
      by (rule unsigned_take_bit_eq)
    also have "\<dots> = unat (num_128bit_blocks len_arg) mod 2 ^ 19"
      by (rule take_bit_eq_mod)
    finally show ?thesis
      by (simp only: take_bit_eq_mask)
  qed
  also have "unat (num_128bit_blocks len_arg) = (unat len_arg + 3) mod 2 ^ 32 div 4"
    by (simp add: num_128bit_blocks_def unat_div unat_word_ariths)
  also have "(unat len_arg + 3) mod 2 ^ 32 div 4 mod 2 ^ 19 = ((unat len_arg + 3) div 4) mod 2 ^ 19"
    using unsigned_less [of len_arg, where 'a = nat] by (intro blocks_mod) simp
  finally show ?thesis
    by (simp add: mask_consts)
qed


lemma generate_writes:
  "writes_of (trace (snd (entropy_csrng_generate n L sm buf len_arg s))) =
     writes_of (trace (snd (entropy_csrng_generate_start n L sm len_arg s)))"
proof -
  obtain r s' where g: "entropy_csrng_generate_start n L sm len_arg s = (r, s')"
    by (cases "entropy_csrng_generate_start n L sm len_arg s")
  show ?thesis
  proof (cases "r = Some OK_STATUS")
    case True
    with g have eq: "entropy_csrng_generate n L sm buf len_arg s =
        entropy_csrng_generate_data_get n L buf len_arg s'"
      by (simp add: entropy_csrng_generate_def seq_def)
    obtain b s'' where l: "generate_data_get_loop n L len_arg 0 buf s' = (b, s'')"
      by (cases "generate_data_get_loop n L len_arg 0 buf s'")
    from generate_data_get_loop_reads [of n L len_arg 0 buf s'] l obtain es where
      "trace s'' = trace s' @ es"
      "list_all (is_read_of [kBaseCsrng L + CSRNG_GENBITS_VLD_REG_OFFSET L,
                             kBaseCsrng L + CSRNG_GENBITS_REG_OFFSET L]) es"
      by auto
    then have "writes_of (trace s'') = writes_of (trace s')"
      by (simp add: writes_of_reads_only)
    moreover have "snd (entropy_csrng_generate_data_get n L buf len_arg s') = s''"
      using l by (simp add: entropy_csrng_generate_data_get_def seq_def ret_def
          split: option.splits)
    ultimately show ?thesis
      using eq g by simp
  next
    case False
    with g show ?thesis
      by (cases r) (simp_all add: entropy_csrng_generate_def seq_def ret_def)
  qed
qed

text \<open>
  C7, as the code has it. Once its wait for "command ready" has ended, and with a seed
  material that is null or passes the length and alignment checks,
  \<open>entropy_csrng_generate_start\<close> writes to the command register of the CSRNG a header
  with the generate opcode in bits 3:0 and, in bits 30:12, the low 19 bits of the word
  count divided by 4 and rounded up: that number itself for every word count up to
  \<open>0x1FFFFC\<close>. \<open>entropy_csrng_generate\<close> writes what \<open>entropy_csrng_generate_start\<close>
  writes. When \<open>entropy_csrng_generate_start\<close> does not return success,
  \<open>entropy_csrng_generate\<close> ends in the state that \<open>entropy_csrng_generate_start\<close> left,
  with its result and the buffer untouched: nothing is read from the output register;
  when it returns success, the output drain runs from that state.
\<close>

theorem generate_start_block_count:
  "((\<forall>m. sm = Some m \<longrightarrow> len m \<le> 15 \<and> 4 dvd unat (data_addr m))
     \<and> fst (poll_bit32 n (kBaseCsrng L + CSRNG_SW_CMD_STS_REG_OFFSET L)
               (CSRNG_SW_CMD_STS_CMD_RDY_BIT L) s) \<noteq> None
     \<longrightarrow> (\<exists>hdr ws.
           writes_of (trace (snd (entropy_csrng_generate_start n L sm len_arg s))) =
             writes_of (trace s) @
             (kBaseCsrng L + CSRNG_INTR_STATE_REG_OFFSET L,
              bitfield_bit32_write 0 (CSRNG_INTR_STATE_CS_CMD_REQ_DONE_BIT L) True)
             # (kBaseCsrng L + CSRNG_CMD_REQ_REG_OFFSET L, hdr) # ws
           \<and> hdr AND 0xf = 3
           \<and> unat (drop_bit 12 hdr AND 0x7ffff) = ((unat len_arg + 3) div 4) mod 2 ^ 19
           \<and> (len_arg \<le> 0x1FFFFC \<longrightarrow>
                unat (drop_bit 12 hdr AND 0x7ffff) = (unat len_arg + 3) div 4)))
   \<and> writes_of (trace (snd (entropy_csrng_generate n L sm buf len_arg s))) =
       writes_of (trace (snd (entropy_csrng_generate_start n L sm len_arg s)))
   \<and> (fst (entropy_csrng_generate_start n L sm len_arg s) \<noteq> Some OK_STATUS \<longrightarrow>
        entropy_csrng_generate n L sm buf len_arg s =
          (map_option (\<lambda>r. (r, buf)) (fst (entropy_csrng_generate_start n L sm len_arg s)),
           snd (entropy_csrng_generate_start n L sm len_arg s)))
   \<and> (fst (entropy_csrng_generate_start n L sm len_arg s) = Some OK_STATUS \<longrightarrow>
        entropy_csrng_generate n L sm buf len_arg s =
          entropy_csrng_generate_data_get n L buf len_arg
            (snd (entropy_csrng_generate_start n L sm len_arg s)))"
proof -
  let ?cmd = "\<lparr>id_cmd = kEntropyDrbgOpGenerate, disable_trng_input = 0, seed_material = sm,
      generate_len = num_128bit_blocks len_arg\<rparr>"
  let ?hdr = "app_cmd_header L ?cmd (cmd_len_of ?cmd)"
  have 1: "(\<forall>m. sm = Some m \<longrightarrow> len m \<le> 15 \<and> 4 dvd unat (data_addr m))
     \<and> fst (poll_bit32 n (kBaseCsrng L + CSRNG_SW_CMD_STS_REG_OFFSET L)
               (CSRNG_SW_CMD_STS_CMD_RDY_BIT L) s) \<noteq> None
     \<longrightarrow> (\<exists>hdr ws.
           writes_of (trace (snd (entropy_csrng_generate_start n L sm len_arg s))) =
             writes_of (trace s) @
             (kBaseCsrng L + CSRNG_INTR_STATE_REG_OFFSET L,
              bitfield_bit32_write 0 (CSRNG_INTR_STATE_CS_CMD_REQ_DONE_BIT L) True)
             # (kBaseCsrng L + CSRNG_CMD_REQ_REG_OFFSET L, hdr) # ws
           \<and> hdr AND 0xf = 3
           \<and> unat (drop_bit 12 hdr AND 0x7ffff) = ((unat len_arg + 3) div 4) mod 2 ^ 19
           \<and> (len_arg \<le> 0x1FFFFC \<longrightarrow>
                unat (drop_bit 12 hdr AND 0x7ffff) = (unat len_arg + 3) div 4))"
  proof
    assume h: "(\<forall>m. sm = Some m \<longrightarrow> len m \<le> 15 \<and> 4 dvd unat (data_addr m))
     \<and> fst (poll_bit32 n (kBaseCsrng L + CSRNG_SW_CMD_STS_REG_OFFSET L)
               (CSRNG_SW_CMD_STS_CMD_RDY_BIT L) s) \<noteq> None"
    then have nr: "\<not> cmd_rejected ?cmd"
      by (auto simp add: cmd_rejected_iff not_less)
    from h have rdy: "fst (poll_bit32 n (kBaseCsrng L + CSRNG_SW_CMD_STS_REG_OFFSET L)
               (CSRNG_SW_CMD_STS_CMD_RDY_BIT L) s) \<noteq> None"
      by simp
    have w: "writes_of (trace (snd (entropy_csrng_generate_start n L sm len_arg s))) =
        writes_of (trace s) @
        (kBaseCsrng L + CSRNG_INTR_STATE_REG_OFFSET L,
         bitfield_bit32_write 0 (CSRNG_INTR_STATE_CS_CMD_REQ_DONE_BIT L) True)
        # (kBaseCsrng L + CSRNG_CMD_REQ_REG_OFFSET L, ?hdr)
        # map (\<lambda>k. (kBaseCsrng L + CSRNG_CMD_REQ_REG_OFFSET L,
                  (case seed_material ?cmd of None \<Rightarrow> (\<lambda>i. 0) | Some m \<Rightarrow> data m) k))
            [0..<unat (cmd_len_of ?cmd)]"
      unfolding entropy_csrng_generate_start_def
      by (rule csrng_send_app_cmd_accepted_writes [OF nr rdy])
    have i: "?hdr AND 0xf = 3"
      by (simp add: header_id)
    have f: "unat (drop_bit 12 ?hdr AND 0x7ffff) = ((unat len_arg + 3) div 4) mod 2 ^ 19"
      by (simp only: header_glen entropy_csrng_cmd_t.simps num_128bit_blocks_field)
    have s: "len_arg \<le> 0x1FFFFC \<longrightarrow>
        unat (drop_bit 12 ?hdr AND 0x7ffff) = (unat len_arg + 3) div 4"
    proof
      assume "len_arg \<le> 0x1FFFFC"
      then have "unat len_arg \<le> 0x1FFFFC"
        by (simp add: word_le_nat_alt)
      then have "(unat len_arg + 3) div 4 < 2 ^ 19"
        by simp
      with f show "unat (drop_bit 12 ?hdr AND 0x7ffff) = (unat len_arg + 3) div 4"
        by simp
    qed
    from w i f s show "\<exists>hdr ws.
           writes_of (trace (snd (entropy_csrng_generate_start n L sm len_arg s))) =
             writes_of (trace s) @
             (kBaseCsrng L + CSRNG_INTR_STATE_REG_OFFSET L,
              bitfield_bit32_write 0 (CSRNG_INTR_STATE_CS_CMD_REQ_DONE_BIT L) True)
             # (kBaseCsrng L + CSRNG_CMD_REQ_REG_OFFSET L, hdr) # ws
           \<and> hdr AND 0xf = 3
           \<and> unat (drop_bit 12 hdr AND 0x7ffff) = ((unat len_arg + 3) div 4) mod 2 ^ 19
           \<and> (len_arg \<le> 0x1FFFFC \<longrightarrow>
                unat (drop_bit 12 hdr AND 0x7ffff) = (unat len_arg + 3) div 4)"
      by blast
  qed
  obtain r s' where g: "entropy_csrng_generate_start n L sm len_arg s = (r, s')"
    by (cases "entropy_csrng_generate_start n L sm len_arg s")
  have 3: "fst (entropy_csrng_generate_start n L sm len_arg s) \<noteq> Some OK_STATUS \<longrightarrow>
        entropy_csrng_generate n L sm buf len_arg s =
          (map_option (\<lambda>r. (r, buf)) (fst (entropy_csrng_generate_start n L sm len_arg s)),
           snd (entropy_csrng_generate_start n L sm len_arg s))"
    using g by (cases r) (simp_all add: entropy_csrng_generate_def seq_def ret_def)
  have 4: "fst (entropy_csrng_generate_start n L sm len_arg s) = Some OK_STATUS \<longrightarrow>
        entropy_csrng_generate n L sm buf len_arg s =
          entropy_csrng_generate_data_get n L buf len_arg
            (snd (entropy_csrng_generate_start n L sm len_arg s))"
    using g by (simp add: entropy_csrng_generate_def seq_def)
  from 1 generate_writes [of n L sm buf len_arg s] 3 4 show ?thesis
    by blast
qed

text \<open>
  C7, as the claim has it, fails from \<open>0x1FFFFD\<close> words on: the block count is
  \<open>0x80000\<close>, the call returns success, and the header it has written is 3, the generate
  opcode alone, with 0 in bits 30:12.
\<close>

theorem generate_start_block_count_counterexample:
  "fst (entropy_csrng_generate_start 1 example_layout None 0x1FFFFD example_hw) = Some OK_STATUS
   \<and> writes_of (trace (snd (entropy_csrng_generate_start 1 example_layout None 0x1FFFFD
        example_hw))) = [(0x41150000, 1), (0x41150018, 3)]
   \<and> (unat (0x1FFFFD :: uint32_t) + 3) div 4 = 0x80000
   \<and> unat (drop_bit 12 (3 :: uint32_t) AND 0x7ffff) \<noteq> (unat (0x1FFFFD :: uint32_t) + 3) div 4"
proof -
  have "fst (entropy_csrng_generate_start 1 example_layout None 0x1FFFFD example_hw)
      = Some OK_STATUS"
    "writes_of (trace (snd (entropy_csrng_generate_start 1 example_layout None 0x1FFFFD
        example_hw))) = [(0x41150000, 1), (0x41150018, 3)]"
    by (simp_all add: run_simps)
  then show ?thesis by simp
qed

theorem generate_start_block_count_witness:
  "fst (poll_bit32 1 0x4115001c 0 example_hw) \<noteq> None
   \<and> (10 :: uint32_t) \<le> 0x1FFFFC
   \<and> (\<exists>hdr ws. writes_of (trace (snd (entropy_csrng_generate_start 1 example_layout None 10
          example_hw))) = (0x41150000, 1) # (0x41150018, hdr) # ws
        \<and> hdr AND 0xf = 3 \<and> unat (drop_bit 12 hdr AND 0x7ffff) = 3)
   \<and> fst (entropy_csrng_generate_start 1 example_layout None 10 example_hw) = Some OK_STATUS
   \<and> entropy_csrng_generate 1 example_layout None (\<lambda>i. 0) 10 example_hw =
       entropy_csrng_generate_data_get 1 example_layout (\<lambda>i. 0) 10
         (snd (entropy_csrng_generate_start 1 example_layout None 10 example_hw))
   \<and> writes_of (trace (snd (entropy_csrng_generate 1 example_layout None (\<lambda>i. 0) 10 example_hw)))
       = [(0x41150000, 1), (0x41150018, 0x3003)]
   \<and> fst (entropy_csrng_generate_start 1 example_layout None 10
        \<lparr>dev = (\<lambda>h a. 3), trace = []\<rparr>) = Some INTERNAL
   \<and> fst (entropy_csrng_generate_start 1 example_layout None 10
        \<lparr>dev = (\<lambda>h a. 3), trace = []\<rparr>) \<noteq> Some OK_STATUS
   \<and> map_option fst (fst (entropy_csrng_generate 1 example_layout None (\<lambda>i. 0) 10
        \<lparr>dev = (\<lambda>h a. 3), trace = []\<rparr>)) = Some INTERNAL
   \<and> trace (snd (entropy_csrng_generate 1 example_layout None (\<lambda>i. 0) 10
        \<lparr>dev = (\<lambda>h a. 3), trace = []\<rparr>)) =
       [Read32 0x4115001c 3, Write32 0x41150000 1, Write32 0x41150018 0x3003,
        Read32 0x41150000 3, Read32 0x4115001c 3]"
proof -
  let ?err = "\<lparr>dev = (\<lambda>h a. 3 :: uint32_t), trace = []\<rparr>"
  have a: "fst (poll_bit32 1 (kBaseCsrng example_layout + CSRNG_SW_CMD_STS_REG_OFFSET example_layout)
      (CSRNG_SW_CMD_STS_CMD_RDY_BIT example_layout) example_hw) = Some 1"
    "fst (poll_bit32 1 0x4115001c 0 example_hw) = Some 1"
    "trace example_hw = []" "bitfield_bit32_write 0 0 True = 1"
    by (simp_all add: run_simps)
  have b: "(10 :: uint32_t) \<le> 0x1FFFFC" by simp
  have c: "fst (entropy_csrng_generate_start 1 example_layout None 10 example_hw) = Some OK_STATUS"
    "writes_of (trace (snd (entropy_csrng_generate 1 example_layout None (\<lambda>i. 0) 10 example_hw)))
       = [(0x41150000, 1), (0x41150018, 0x3003)]"
    by (simp_all add: run_simps)
  have d: "fst (entropy_csrng_generate_start 1 example_layout None 10 ?err) = Some INTERNAL"
    "trace (snd (entropy_csrng_generate_start 1 example_layout None 10 ?err)) =
       [Read32 0x4115001c 3, Write32 0x41150000 1, Write32 0x41150018 0x3003,
        Read32 0x41150000 3, Read32 0x4115001c 3]"
    by (simp_all add: run_simps)
  note ok = generate_start_block_count
    [of None 1 example_layout example_hw 10 "\<lambda>i. 0"]
  note ko = generate_start_block_count
    [of None 1 example_layout ?err 10 "\<lambda>i. 0"]
  from ok a b have 1: "\<exists>hdr ws. writes_of (trace (snd (entropy_csrng_generate_start 1
      example_layout None 10 example_hw))) = (0x41150000, 1) # (0x41150018, hdr) # ws
        \<and> hdr AND 0xf = 3 \<and> unat (drop_bit 12 hdr AND 0x7ffff) = 3"
    by (simp add: example_layout_simps)
  from ok c(1) have 2: "entropy_csrng_generate 1 example_layout None (\<lambda>i. 0) 10 example_hw =
       entropy_csrng_generate_data_get 1 example_layout (\<lambda>i. 0) 10
         (snd (entropy_csrng_generate_start 1 example_layout None 10 example_hw))"
    by simp
  from ko d(1) have 3: "entropy_csrng_generate 1 example_layout None (\<lambda>i. 0) 10 ?err =
      (Some (INTERNAL, \<lambda>i. 0), snd (entropy_csrng_generate_start 1 example_layout None 10 ?err))"
    by simp
  from 3 d(2) have 4: "map_option fst (fst (entropy_csrng_generate 1 example_layout None
        (\<lambda>i. 0) 10 ?err)) = Some INTERNAL"
    "trace (snd (entropy_csrng_generate 1 example_layout None (\<lambda>i. 0) 10 ?err)) =
       [Read32 0x4115001c 3, Write32 0x41150000 1, Write32 0x41150018 0x3003,
        Read32 0x41150000 3, Read32 0x4115001c 3]"
    by simp_all
  from a(2) b 1 c 2 d(1) 4 show ?thesis
    by simp
qed

subsection \<open>Initialisation\<close>

lemma entropy_complex_stop_all_returns:
  "fst (entropy_complex_stop_all L s) = Some ()"
  by (simp add: entropy_complex_stop_all_def edn_stop_def entropy_src_stop_def seq_def
      abs_mmio_read32_def abs_mmio_write32_def Let_def)

lemma csrng_configure_returns: "fst (csrng_configure L s) = Some ()"
  by (simp add: csrng_configure_def abs_mmio_write32_def Let_def)

text \<open>
  C6. \<open>entropy_complex_init\<close> runs \<open>entropy_complex_stop_all\<close> first, which always
  returns. If the \<open>id\<close> of the configuration entry is not that of the continuous
  configuration, it returns the internal error in the state that the stop left: nothing is
  configured. Otherwise it configures the entropy source (which always succeeds), enables
  the CSRNG, and configures edn0; if that does not return success, its outcome is the
  outcome of the call and edn1 is not touched; otherwise the outcome is that of the
  configuration of edn1. The entry of the built-in table has the \<open>id\<close> of the continuous
  configuration.
\<close>

theorem init_order:
  "entropy_complex_init_on n L config s =
     (let s1 = snd (entropy_complex_stop_all L s)
      in if id_config config \<noteq> kEntropyComplexConfigIdContinuous then (Some INTERNAL, s1)
         else
           let s2 = snd (entropy_src_configure L config s1);
               s3 = snd (csrng_configure L s2)
           in case edn_configure n L (edn0 config) s3 of
                (Some OK_STATUS, s4) \<Rightarrow> edn_configure n L (edn1 config) s4
              | (r, s4) \<Rightarrow> (r, s4))
   \<and> fst (entropy_complex_stop_all L s) = Some ()
   \<and> fst (entropy_src_configure L config (snd (entropy_complex_stop_all L s))) = Some OK_STATUS
   \<and> entropy_complex_init n L = entropy_complex_init_on n L (hd (kEntropyComplexConfigs L))
   \<and> id_config (hd (kEntropyComplexConfigs L)) = kEntropyComplexConfigIdContinuous"
proof -
  obtain s1 where s1: "entropy_complex_stop_all L s = (Some (), s1)"
    using entropy_complex_stop_all_returns [of L s]
    by (cases "entropy_complex_stop_all L s") simp
  obtain s2 where s2: "entropy_src_configure L config s1 = (Some OK_STATUS, s2)"
    by (simp add: entropy_src_configure_run)
  obtain s3 where s3: "csrng_configure L s2 = (Some (), s3)"
    using csrng_configure_returns [of L s2]
    by (cases "csrng_configure L s2") simp
  have id: "entropy_complex_config_id_value (id_config config)
        \<noteq> entropy_complex_config_id_value kEntropyComplexConfigIdContinuous
      \<longleftrightarrow> id_config config \<noteq> kEntropyComplexConfigIdContinuous"
    by (cases "id_config config") simp_all
  have "entropy_complex_init_on n L config s =
     (if id_config config \<noteq> kEntropyComplexConfigIdContinuous then (Some INTERNAL, s1)
      else case edn_configure n L (edn0 config) s3 of
             (Some OK_STATUS, s4) \<Rightarrow> edn_configure n L (edn1 config) s4
           | (r, s4) \<Rightarrow> (r, s4))"
    using s1 s2 s3 id
    by (simp add: entropy_complex_init_on_def seq_def TRY_def ret_def launder32_def Let_def
        split: prod.splits option.splits status_t.splits)
  with s1 s2 s3 show ?thesis
    by (simp add: Let_def entropy_complex_init_def kEntropyComplexConfigs_def)
qed

theorem init_order_witness:
  "fst (entropy_complex_init 1 example_layout example_hw) = Some OK_STATUS
   \<and> writes_of (trace (snd (entropy_complex_init 1 example_layout example_hw))) =
       [(0x41170014, 0x6000), (0x41170014, 0x9999),
        (0x41180014, 0x6003), (0x41180014, 0x9999),
        (0x41150014, 0x999),
        (0x41160020, 0x9), (0x41160028, 0x99), (0x41160024, 0x2649999),
        (0x41160030, 0x600200), (0x411600a8, 0xfffd0002),
        (0x41160028, 0x99), (0x41160024, 0x909096), (0x41160030, 0x600200),
        (0x411600a8, 0xfffd0002), (0x41160020, 0x6),
        (0x41150014, 0x666),
        (0x41150000, 1), (0x41170028, 0x2), (0x41150000, 1), (0x4117002c, 0x8003),
        (0x41170030, 32), (0x41170014, 0x606), (0x41150000, 1), (0x41170020, 0x1),
        (0x41150000, 1), (0x41180028, 0x2), (0x41150000, 1), (0x4118002c, 0x1003),
        (0x41180030, 4), (0x41180014, 0x606), (0x41150000, 1), (0x41180020, 0x1)]
   \<and> fst (entropy_complex_init_on 1 example_layout
        ((hd (kEntropyComplexConfigs example_layout))
           \<lparr>id_config := kEntropyComplexConfigIdNumEntries\<rparr>) example_hw) = Some INTERNAL
   \<and> trace (snd (entropy_complex_init_on 1 example_layout
        ((hd (kEntropyComplexConfigs example_layout))
           \<lparr>id_config := kEntropyComplexConfigIdNumEntries\<rparr>) example_hw)) =
      trace (snd (entropy_complex_stop_all example_layout example_hw))"
proof -
  let ?bad = "(hd (kEntropyComplexConfigs example_layout))
           \<lparr>id_config := kEntropyComplexConfigIdNumEntries\<rparr>"
  have a: "fst (entropy_complex_init 1 example_layout example_hw) = Some OK_STATUS"
    by (simp add: run_simps)
  have b: "writes_of (trace (snd (entropy_complex_init 1 example_layout example_hw))) =
       [(0x41170014, 0x6000), (0x41170014, 0x9999),
        (0x41180014, 0x6003), (0x41180014, 0x9999),
        (0x41150014, 0x999),
        (0x41160020, 0x9), (0x41160028, 0x99), (0x41160024, 0x2649999),
        (0x41160030, 0x600200), (0x411600a8, 0xfffd0002),
        (0x41160028, 0x99), (0x41160024, 0x909096), (0x41160030, 0x600200),
        (0x411600a8, 0xfffd0002), (0x41160020, 0x6),
        (0x41150014, 0x666),
        (0x41150000, 1), (0x41170028, 0x2), (0x41150000, 1), (0x4117002c, 0x8003),
        (0x41170030, 32), (0x41170014, 0x606), (0x41150000, 1), (0x41170020, 0x1),
        (0x41150000, 1), (0x41180028, 0x2), (0x41150000, 1), (0x4118002c, 0x1003),
        (0x41180030, 4), (0x41180014, 0x606), (0x41150000, 1), (0x41180020, 0x1)]"
    by (simp add: run_simps)
  have c: "id_config ?bad \<noteq> kEntropyComplexConfigIdContinuous"
    by simp
  from init_order [of 1 example_layout ?bad example_hw] c
  have "entropy_complex_init_on 1 example_layout ?bad example_hw =
      (Some INTERNAL, snd (entropy_complex_stop_all example_layout example_hw))"
    by (simp add: Let_def)
  with a b show ?thesis by simp
qed

end
